theory Spec2Isabelle
  imports Main "HOL-Library.Sublist"
begin

section \<open>Strings\<close>

text \<open>
  The component works on JavaScript strings. They are modelled as \<^typ>\<open>string\<close>, that is,
  as lists of code units below 256. \<open>toLowerCase\<close> maps the upper-case letters of that range
  (A to Z, and the Latin-1 letters 192 to 222 without the multiplication sign 215) to the
  code unit 32 above; \<open>includes\<close> is the test for a contiguous substring; \<open>trim\<close> removes
  the white space of that range (tab, line feed, vertical tab, form feed, carriage return,
  space, no-break space) from both ends.
\<close>

definition toLowerChar :: "char \<Rightarrow> char" where
  "toLowerChar c =
     (let n = (of_char c :: nat)
      in if (65 \<le> n \<and> n \<le> 90) \<or> (192 \<le> n \<and> n \<le> 222 \<and> n \<noteq> 215)
         then char_of (n + 32) else c)"

definition toLowerCase :: "string \<Rightarrow> string" where
  "toLowerCase s = map toLowerChar s"

fun includes_str :: "string \<Rightarrow> string \<Rightarrow> bool" where
  "includes_str [] sub = (sub = [])"
| "includes_str (c # cs) sub = (prefix sub (c # cs) \<or> includes_str cs sub)"

definition isWhiteSpace :: "char \<Rightarrow> bool" where
  "isWhiteSpace c = ((of_char c :: nat) \<in> {9, 10, 11, 12, 13, 32, 160})"

definition trim :: "string \<Rightarrow> string" where
  "trim s = rev (dropWhile isWhiteSpace (rev (dropWhile isWhiteSpace s)))"

section \<open>Data model\<close>

datatype Role = User | Assistant

record Message =
  role :: Role
  content :: string
  timestamp :: int

record PerformanceMetrics =
  sttLatency :: int
  apiLatency :: int
  ttsLatency :: int
  totalLatency :: int
  playbackStart :: int

datatype MessageType = T_load | T_transcribe | T_model_loaded | T_transcript | T_error

type_synonym Blob = nat

record WhisperWorkerMessage =
  m_type :: MessageType
  m_audio :: "Blob option"
  m_text :: "string option"
  m_error :: "string option"
  m_latency :: "int option"

text \<open>
  The mock worker: its \<open>isLoaded\<close> flag, the start times captured by the transcription
  timers that \<open>postMessage\<close> has armed (each emits one transcript message when it fires),
  whether its \<open>onmessage\<close> slot holds a handler (it is \<open>null\<close> in a new worker, and the
  source has no assignment to it), the messages handed to \<open>sendMessage\<close>, and those among
  them that \<open>sendMessage\<close> passed on to the handler.
\<close>

record MockWhisperWorker =
  whisper_isLoaded :: bool
  timers :: "int list"
  onmessage_set :: bool
  sent :: "WhisperWorkerMessage list"
  delivered :: "WhisperWorkerMessage list"

record MockTTSEngine =
  tts_isLoaded :: bool
  hasAudioContext :: bool

text \<open>The buffer synthesized for a text; its samples play no role in the orchestration.\<close>

datatype AudioBuffer = AudioBuffer string

datatype OpenAIClient = OpenAIClient (client_apiKey: string)

text \<open>
  What the component does to the outside world, in order: alerts, console errors, remote
  requests (credential and the role/content pairs of the request body), messages posted to
  the worker, buffers started on the audio context, and the calls of \<open>setCurrentStatus\<close>
  and \<open>setIsPlaying\<close>.
\<close>

datatype event =
    Alert string
  | ConsoleError string
  | Fetch string "(Role \<times> string) list"
  | PostMessage WhisperWorkerMessage
  | Play AudioBuffer
  | Status string
  | Playing bool

fun isFetch :: "event \<Rightarrow> bool" where
  "isFetch (Fetch k b) = True"
| "isFetch ev = False"


record state =
  messages :: "Message list"
  isProcessing :: bool
  apiKey :: string
  isOnline :: bool
  performanceMetrics :: "PerformanceMetrics option"
  isModelLoaded :: bool
  isTTSLoaded :: bool
  isPlaying :: bool
  currentStatus :: string
  isRecording :: bool
  audioBlob :: "Blob option"
  whisperWorkerRef :: "MockWhisperWorker option"
  ttsEngineRef :: "MockTTSEngine option"
  openaiClientRef :: "OpenAIClient option"
  ticks :: nat
  effects :: "event list"

text \<open>
  The values a render captures in the closures of its callbacks and effects. State setters
  queue an update for the next render and do not change them.
\<close>

record closure =
  c_messages :: "Message list"
  c_isOnline :: bool
  c_isTTSLoaded :: bool
  c_isModelLoaded :: bool
  c_isRecording :: bool
  c_audioBlob :: "Blob option"
  c_apiKey :: string

definition render :: "state \<Rightarrow> closure" where
  "render s =
     \<lparr>c_messages = messages s, c_isOnline = isOnline s, c_isTTSLoaded = isTTSLoaded s,
      c_isModelLoaded = isModelLoaded s, c_isRecording = isRecording s,
      c_audioBlob = audioBlob s, c_apiKey = apiKey s\<rparr>"

text \<open>
  The environment of a run: the system clock (its k-th reading, by \<open>Date.now()\<close> or
  \<open>new Date()\<close>), the locale's formatting of an instant, the draw behind
  \<open>Math.floor(Math.random() * n)\<close>, and what the network answers to a request.
  A response with status ok and a \<open>choices\<close> array carries
  \<open>choices[0]?.message?.content\<close> (absent as \<open>None\<close>); a response with status ok whose
  body has no \<open>choices\<close> array makes \<open>data.choices[0]\<close> throw, after the latency has been
  read at line 172; otherwise the request fails before that line (transport error, status
  not ok, body that is not JSON).
\<close>

datatype fetch_outcome = Responded "string option" | NoChoices | Failed

record env =
  clock :: "nat \<Rightarrow> int"
  toLocaleTimeString :: "int \<Rightarrow> string"
  toLocaleDateString :: "int \<Rightarrow> string"
  random :: nat
  fetch :: "string \<Rightarrow> (Role \<times> string) list \<Rightarrow> fetch_outcome"

definition dateNow :: "env \<Rightarrow> state \<Rightarrow> int \<times> state" where
  "dateNow e s = (clock e (ticks s), s\<lparr>ticks := Suc (ticks s)\<rparr>)"

text \<open>
  \<open>Math.floor(Math.random() * n)\<close> for a positive length \<open>n\<close> is an index below \<open>n\<close>: the
  environment's draw is reduced modulo \<open>n\<close>.
\<close>

definition floorRandom :: "env \<Rightarrow> nat \<Rightarrow> nat" where
  "floorRandom e n = random e mod n"

definition setMessages :: "(Message list \<Rightarrow> Message list) \<Rightarrow> state \<Rightarrow> state" where
  "setMessages f s = s\<lparr>messages := f (messages s)\<rparr>"

definition setCurrentStatus :: "string \<Rightarrow> state \<Rightarrow> state" where
  "setCurrentStatus x s = s\<lparr>currentStatus := x, effects := effects s @ [Status x]\<rparr>"

definition setIsPlaying :: "bool \<Rightarrow> state \<Rightarrow> state" where
  "setIsPlaying b s = s\<lparr>isPlaying := b, effects := effects s @ [Playing b]\<rparr>"

definition setIsProcessing :: "bool \<Rightarrow> state \<Rightarrow> state" where
  "setIsProcessing b s = s\<lparr>isProcessing := b\<rparr>"

definition setPerformanceMetrics :: "PerformanceMetrics option \<Rightarrow> state \<Rightarrow> state" where
  "setPerformanceMetrics m s = s\<lparr>performanceMetrics := m\<rparr>"

definition emit :: "event \<Rightarrow> state \<Rightarrow> state" where
  "emit ev s = s\<lparr>effects := effects s @ [ev]\<rparr>"

section \<open>MockWhisperWorker\<close>

definition sendMessage :: "WhisperWorkerMessage \<Rightarrow> MockWhisperWorker \<Rightarrow> MockWhisperWorker" where
  "sendMessage msg w =
     (if onmessage_set w then w\<lparr>sent := sent w @ [msg], delivered := delivered w @ [msg]\<rparr>
      else w\<lparr>sent := sent w @ [msg]\<rparr>)"

text \<open>\<open>postMessage\<close> threads the number of clock readings made so far.\<close>

definition postMessage ::
  "env \<Rightarrow> WhisperWorkerMessage \<Rightarrow> MockWhisperWorker \<Rightarrow> nat \<Rightarrow> MockWhisperWorker \<times> nat" where
  "postMessage e msg w k =
     (if m_type msg = T_load then (w, k)
      else if m_type msg = T_transcribe \<and> m_audio msg \<noteq> None then
        (if whisper_isLoaded w then (w\<lparr>timers := timers w @ [clock e k]\<rparr>, Suc k)
         else (sendMessage \<lparr>m_type = T_error, m_audio = None, m_text = None,
                 m_error = Some ''Model not loaded yet'', m_latency = None\<rparr> w, k))
      else (w, k))"

section \<open>MockTTSEngine\<close>

definition synthesize ::
  "env \<Rightarrow> MockTTSEngine \<Rightarrow> string \<Rightarrow> state \<Rightarrow> (string + AudioBuffer \<times> int) \<times> state" where
  "synthesize e tts txt s =
     (if tts_isLoaded tts then
        (let (startTime, s1) = dateNow e s
         in if hasAudioContext tts then
              (let (t, s2) = dateNow e s1 in (Inr (AudioBuffer txt, t - startTime), s2))
            else (Inl ''TypeError'', s1))
      else (Inl ''TTS model not loaded yet'', s))"

definition playAudio :: "MockTTSEngine \<Rightarrow> AudioBuffer \<Rightarrow> state \<Rightarrow> state" where
  "playAudio tts buf s = (if hasAudioContext tts then emit (Play buf) s else s)"

section \<open>OpenAIClient\<close>

definition jokes :: "string list" where
  "jokes =
     [''Why don't scientists trust atoms? Because they make up everything!'',
      ''What do you call a fake noodle? An impasta!'',
      ''Why did the scarecrow win an award? He was outstanding in his field!'']"

definition generateFallbackResponse :: "env \<Rightarrow> string \<Rightarrow> state \<Rightarrow> string \<times> state" where
  \<open>generateFallbackResponse e input s =
     (let lowerInput = toLowerCase input
      in if includes_str lowerInput ''hello'' \<or> includes_str lowerInput ''hi'' then
           (''Hello! I'm your AI assistant. How can I help you today?'', s)
         else if includes_str lowerInput ''weather'' then
           (''I don't have access to real-time weather data, but I hope it's pleasant where you are!'', s)
         else if includes_str lowerInput ''joke'' then
           (jokes ! floorRandom e (length jokes), s)
         else if includes_str lowerInput ''time'' then
           (let (d, s1) = dateNow e s
            in (''The current time is '' @ toLocaleTimeString e d @ ''.'', s1))
         else
           (''I understand you said: "'' @ input @
            ''". That's interesting! What would you like to know more about?'', s))\<close>

text \<open>
  \<open>chatCompletion\<close> returns a promise; \<open>Inl\<close> stands for its rejection. Every failure of the
  request is caught inside and answered by \<open>generateFallbackResponse\<close>.
\<close>

definition chatCompletion ::
  "env \<Rightarrow> OpenAIClient \<Rightarrow> Message list \<Rightarrow> state \<Rightarrow> (string + string \<times> int) \<times> state" where
  "chatCompletion e client msgs s =
     (let (startTime, s1) = dateNow e s;
          body = map (\<lambda>msg. (role msg, content msg)) msgs;
          s2 = emit (Fetch (client_apiKey client) body) s1
      in case fetch e (client_apiKey client) body of
           Responded c \<Rightarrow>
             (let (t, s3) = dateNow e s2
              in (Inr (case c of
                         None \<Rightarrow> ''Sorry, I could not generate a response.''
                       | Some x \<Rightarrow>
                           if x = [] then ''Sorry, I could not generate a response.'' else x,
                       t - startTime), s3))
         | NoChoices \<Rightarrow>
             (let (t172, s3) = dateNow e s2;
                  s4 = emit (ConsoleError ''OpenAI API Error:'') s3;
                  (t, s5) = dateNow e s4;
                  (r, s6) = generateFallbackResponse e
                              (if msgs = [] then [] else content (last msgs)) s5
              in (Inr (r, t - startTime), s6))
         | Failed \<Rightarrow>
             (let s3 = emit (ConsoleError ''OpenAI API Error:'') s2;
                  (t, s4) = dateNow e s3;
                  (r, s5) = generateFallbackResponse e
                              (if msgs = [] then [] else content (last msgs)) s4
              in (Inr (r, t - startTime), s5)))"

section \<open>The component\<close>

definition getOfflineResponse :: "env \<Rightarrow> string \<Rightarrow> state \<Rightarrow> string \<times> state" where
  \<open>getOfflineResponse e input s =
     (let lowerInput = toLowerCase input
      in if includes_str lowerInput ''hello'' \<or> includes_str lowerInput ''hi'' then
           (''Hello! I'm running in offline mode with local speech processing. How can I help you?'', s)
         else if includes_str lowerInput ''time'' then
           (let (d, s1) = dateNow e s
            in (''The current time is '' @ toLocaleTimeString e d, s1))
         else if includes_str lowerInput ''date'' then
           (let (d, s1) = dateNow e s
            in (''Today's date is '' @ toLocaleDateString e d, s1))
         else
           (''You said: "'' @ input @
            ''". I'm running offline with local STT and TTS. What would you like to know?'', s))\<close>

text \<open>
  \<open>handleTranscript\<close>, in the four parts of its body. The awaited completion call is a
  parameter \<open>chat\<close>, so that a statement can speak of every completion client;
  \<open>handleTranscript\<close> itself is the instance with \<open>chatCompletion\<close>.
\<close>

type_synonym completion =
  "env \<Rightarrow> OpenAIClient \<Rightarrow> Message list \<Rightarrow> state \<Rightarrow> (string + string \<times> int) \<times> state"

text \<open>Lines 281 to 290: the clock reading, the user message and its append.\<close>

definition handleTranscript_begin :: "env \<Rightarrow> string \<Rightarrow> state \<Rightarrow> int \<times> Message \<times> state" where
  "handleTranscript_begin e txt s =
     (let (overallStartTime, s1) = dateNow e s;
          (ts, s2) = dateNow e s1;
          userMessage = \<lparr>role = User, content = txt, timestamp = ts\<rparr>;
          s3 = setMessages (\<lambda>prev. prev @ [userMessage]) s2;
          s4 = setCurrentStatus ''Getting AI response...'' s3
      in (overallStartTime, userMessage, s4))"

text \<open>Lines 293 to 305: the reply, from the remote client or from the offline responder.\<close>

definition offlineCompletion :: "env \<Rightarrow> string \<Rightarrow> int \<Rightarrow> state \<Rightarrow> (string + string \<times> int) \<times> state" where
  "offlineCompletion e txt apiStartTime s =
     (let (r, s1) = getOfflineResponse e txt s;
          (t, s2) = dateNow e s1
      in (Inr (r, t - apiStartTime), s2))"

definition handleTranscript_complete ::
  "completion \<Rightarrow> env \<Rightarrow> closure \<Rightarrow> string \<Rightarrow> Message \<Rightarrow> state \<Rightarrow> (string + string \<times> int) \<times> state" where
  "handleTranscript_complete chat e cl txt userMessage s =
     (let (apiStartTime, s1) = dateNow e s
      in if c_isOnline cl then
           (case openaiClientRef s1 of
              Some client \<Rightarrow> chat e client (c_messages cl @ [userMessage]) s1
            | None \<Rightarrow> offlineCompletion e txt apiStartTime s1)
         else offlineCompletion e txt apiStartTime s1)"

text \<open>Lines 316 to 343: synthesis and playback, with their own \<open>try\<close> and \<open>catch\<close>.\<close>

definition handleTranscript_tts ::
  "env \<Rightarrow> closure \<Rightarrow> int \<Rightarrow> int \<Rightarrow> int \<Rightarrow> string \<Rightarrow> state \<Rightarrow> state" where
  "handleTranscript_tts e cl stt api overallStartTime aiResponse s =
     (case ttsEngineRef s of
        None \<Rightarrow> s
      | Some tts \<Rightarrow>
          if c_isTTSLoaded cl then
            (let (ttsStartTime, s1) = dateNow e s
             in case synthesize e tts aiResponse s1 of
                  (Inl ttsError, s2) \<Rightarrow>
                    setCurrentStatus ''TTS error, but response received''
                      (emit (ConsoleError ''TTS Error:'') s2)
                | (Inr (audioBuffer, tts_lat), s2) \<Rightarrow>
                    (let s3 = setCurrentStatus ''Playing audio...'' s2;
                         s4 = setIsPlaying True s3;
                         (playbackStartTime, s5) = dateNow e s4;
                         s6 = playAudio tts audioBuffer s5;
                         s7 = setIsPlaying False s6;
                         s8 = setCurrentStatus ''Ready to chat!'' s7;
                         (t, s9) = dateNow e s8
                     in setPerformanceMetrics
                          (Some \<lparr>sttLatency = stt, apiLatency = api, ttsLatency = tts_lat,
                                 totalLatency = t - overallStartTime,
                                 playbackStart = playbackStartTime - overallStartTime\<rparr>) s9))
          else s)"

text \<open>Lines 292 to 343: the \<open>try\<close> block; \<open>Inl\<close> is an exception that leaves it.\<close>

definition handleTranscript_try ::
  "completion \<Rightarrow> env \<Rightarrow> closure \<Rightarrow> string \<Rightarrow> int \<Rightarrow> int \<Rightarrow> Message \<Rightarrow> state \<Rightarrow> (string + unit) \<times> state" where
  "handleTranscript_try chat e cl txt stt overallStartTime userMessage s =
     (case handleTranscript_complete chat e cl txt userMessage s of
        (Inl err, s1) \<Rightarrow> (Inl err, s1)
      | (Inr (aiResponse, api), s1) \<Rightarrow>
          (let (ts, s2) = dateNow e s1;
               assistantMessage = \<lparr>role = Assistant, content = aiResponse, timestamp = ts\<rparr>;
               s3 = setMessages (\<lambda>prev. prev @ [assistantMessage]) s2;
               s4 = setCurrentStatus ''Synthesizing speech...'' s3
           in (Inr (), handleTranscript_tts e cl stt api overallStartTime aiResponse s4)))"

text \<open>Lines 345 to 354: the \<open>catch\<close> block.\<close>

definition handleTranscript_catch :: "env \<Rightarrow> state \<Rightarrow> state" where
  "handleTranscript_catch e s =
     (let s1 = emit (ConsoleError ''Error processing transcript:'') s;
          s2 = setCurrentStatus ''Error processing request'' s1;
          (ts, s3) = dateNow e s2;
          errorMessage = \<lparr>role = Assistant,
                          content = ''Sorry, I encountered an error processing your request.'',
                          timestamp = ts\<rparr>
      in setMessages (\<lambda>prev. prev @ [errorMessage]) s3)"

definition handleTranscriptWith ::
  "completion \<Rightarrow> env \<Rightarrow> closure \<Rightarrow> string \<Rightarrow> int \<Rightarrow> state \<Rightarrow> state" where
  "handleTranscriptWith chat e cl txt stt s =
     (let (overallStartTime, userMessage, s1) = handleTranscript_begin e txt s;
          s2 = (case handleTranscript_try chat e cl txt stt overallStartTime userMessage s1 of
                  (Inr u, s') \<Rightarrow> s'
                | (Inl err, s') \<Rightarrow> handleTranscript_catch e s')
      in setIsProcessing False s2)"

definition handleTranscript :: "env \<Rightarrow> closure \<Rightarrow> string \<Rightarrow> int \<Rightarrow> state \<Rightarrow> state" where
  "handleTranscript = handleTranscriptWith chatCompletion"

text \<open>
  The recorder's \<open>startRecording\<close> and \<open>stopRecording\<close> have no body in the source and are
  parameters of the toggle.
\<close>

definition handleRecordingToggle ::
  "(state \<Rightarrow> state) \<Rightarrow> (state \<Rightarrow> state) \<Rightarrow> closure \<Rightarrow> state \<Rightarrow> state" where
  "handleRecordingToggle startRecording stopRecording cl s =
     (if c_isRecording cl then
        setCurrentStatus ''Processing recording...'' (stopRecording s)
      else if \<not> c_isModelLoaded cl then
        emit (Alert ''Please wait for the Whisper model to load first!'') s
      else setCurrentStatus ''Listening... Click stop when done'' (startRecording s))"


section \<open>Effects\<close>

definition resetAudio :: "state \<Rightarrow> state" where
  "resetAudio s = s\<lparr>audioBlob := None\<rparr>"

text \<open>
  The effect on \<open>audioBlob\<close>. The source registers it twice, at lines 253 and 270, with the
  same body and the same dependencies.
\<close>

definition audioBlobEffect :: "env \<Rightarrow> closure \<Rightarrow> state \<Rightarrow> state" where
  "audioBlobEffect e cl s =
     (case c_audioBlob cl of
        None \<Rightarrow> s
      | Some blob \<Rightarrow>
          (case whisperWorkerRef s of
             None \<Rightarrow> s
           | Some w \<Rightarrow>
               if c_isModelLoaded cl then
                 (let s1 = setIsProcessing True s;
                      s2 = setCurrentStatus ''Processing speech...'' s1;
                      msg = \<lparr>m_type = T_transcribe, m_audio = Some blob, m_text = None,
                             m_error = None, m_latency = None\<rparr>;
                      (w1, k) = postMessage e msg w (ticks s2);
                      s3 = (emit (PostMessage msg) s2)\<lparr>whisperWorkerRef := Some w1, ticks := k\<rparr>
                  in resetAudio s3)
               else s))"

definition apiKeyEffect :: "closure \<Rightarrow> state \<Rightarrow> state" where
  "apiKeyEffect cl s =
     (if c_apiKey cl \<noteq> [] \<and> trim (c_apiKey cl) \<noteq> [] then
        s\<lparr>openaiClientRef := Some (OpenAIClient (c_apiKey cl))\<rparr>
      else s)"

text \<open>
  After a render is committed its effects run in the order of their registration, each with
  the closure of that render; an effect runs on mount (\<open>None\<close>) and when one of its
  dependencies differs from the previous render's.
\<close>

definition audioDepsChanged :: "closure option \<Rightarrow> closure \<Rightarrow> bool" where
  "audioDepsChanged prev cl =
     (case prev of
        None \<Rightarrow> True
      | Some p \<Rightarrow> \<not> (c_audioBlob p = c_audioBlob cl \<and> c_isModelLoaded p = c_isModelLoaded cl))"

definition apiKeyDepsChanged :: "closure option \<Rightarrow> closure \<Rightarrow> bool" where
  "apiKeyDepsChanged prev cl =
     (case prev of None \<Rightarrow> True | Some p \<Rightarrow> c_apiKey p \<noteq> c_apiKey cl)"

definition commitEffects :: "env \<Rightarrow> closure option \<Rightarrow> closure \<Rightarrow> state \<Rightarrow> state" where
  "commitEffects e prev cl s =
     (let s1 = (if audioDepsChanged prev cl then audioBlobEffect e cl s else s);
          s2 = (if apiKeyDepsChanged prev cl then apiKeyEffect cl s1 else s1)
      in if audioDepsChanged prev cl then audioBlobEffect e cl s2 else s2)"

text \<open>
  A state update followed by the renders it causes: the render of the updated state, its
  effects, and the render that the effects' own updates cause.
\<close>

definition rerender :: "env \<Rightarrow> closure \<Rightarrow> state \<Rightarrow> state" where
  "rerender e prev s =
     (let cl1 = render s;
          s1 = commitEffects e (Some prev) cl1 s
      in commitEffects e (Some cl1) (render s1) s1)"

text \<open>The recorder hands over a captured blob: the "utterance ready" event.\<close>

definition setAudioBlob :: "env \<Rightarrow> Blob \<Rightarrow> state \<Rightarrow> state" where
  "setAudioBlob e blob s = rerender e (render s) (s\<lparr>audioBlob := Some blob\<rparr>)"

text \<open>The credential input's \<open>onChange\<close>.\<close>

definition setApiKey :: "env \<Rightarrow> string \<Rightarrow> state \<Rightarrow> state" where
  "setApiKey e key s = rerender e (render s) (s\<lparr>apiKey := key\<rparr>)"

section \<open>Sample runs\<close>

text \<open>
  A clock for one full run on the remote path: the reply arrives after 500 ms, synthesis
  takes 500 ms and playback one second.
\<close>

definition clock0 :: "nat \<Rightarrow> int" where
  "clock0 k = (if k \<le> 3 then 0 else if k \<le> 7 then 500 else if k \<le> 9 then 1000 else 2000)"

definition env0 :: env where
  "env0 =
     \<lparr>clock = clock0,
      toLocaleTimeString = (\<lambda>t. if t = 0 then ''10:15:30 AM'' else ''10:15:31 AM''),
      toLocaleDateString = (\<lambda>t. ''11/3/2026''),
      random = 1,
      fetch = (\<lambda>key body. Responded (Some ''Hello! How can I help?''))\<rparr>"

text \<open>The same environment with a network that fails.\<close>

definition env_down :: env where
  "env_down = env0\<lparr>fetch := (\<lambda>key body. Failed)\<rparr>"

text \<open>The same environment with a network that answers with a body without choices.\<close>

definition env_nochoices :: env where
  "env_nochoices = env0\<lparr>fetch := (\<lambda>key body. NoChoices)\<rparr>"

text \<open>Both engines loaded, online, a client configured, a run about to start.\<close>

definition state0 :: state where
  "state0 =
     \<lparr>messages = [], isProcessing = True, apiKey = ''sk-test'', isOnline = True,
      performanceMetrics = None, isModelLoaded = True, isTTSLoaded = True, isPlaying = False,
      currentStatus = ''Processing speech...'', isRecording = False, audioBlob = None,
      whisperWorkerRef = Some \<lparr>whisper_isLoaded = True, timers = [], onmessage_set = False,
                               sent = [], delivered = []\<rparr>,
      ttsEngineRef = Some \<lparr>tts_isLoaded = True, hasAudioContext = True\<rparr>,
      openaiClientRef = Some (OpenAIClient ''sk-test''), ticks = 0, effects = []\<rparr>"

text \<open>The component just mounted: nothing loaded yet, no client.\<close>

definition state_init :: state where
  "state_init =
     \<lparr>messages = [], isProcessing = False, apiKey = [], isOnline = True,
      performanceMetrics = None, isModelLoaded = False, isTTSLoaded = False, isPlaying = False,
      currentStatus = ''Initializing...'', isRecording = False, audioBlob = None,
      whisperWorkerRef = Some \<lparr>whisper_isLoaded = False, timers = [], onmessage_set = False,
                               sent = [], delivered = []\<rparr>,
      ttsEngineRef = Some \<lparr>tts_isLoaded = False, hasAudioContext = True\<rparr>,
      openaiClientRef = None, ticks = 0, effects = []\<rparr>"

text \<open>The engine object exists and the component's flag is set, but the engine is not loaded.\<close>

definition state_tts_down :: state where
  "state_tts_down =
     state0\<lparr>ttsEngineRef := Some \<lparr>tts_isLoaded = False, hasAudioContext = True\<rparr>\<rparr>"

text \<open>The component's flag for the synthesis engine is not set yet.\<close>

definition state_tts_unready :: state where
  "state_tts_unready = state0\<lparr>isTTSLoaded := False\<rparr>"

text \<open>Offline, with the snapshot of an earlier run still published.\<close>

definition state_offline :: state where
  "state_offline =
     state_tts_down\<lparr>isOnline := False,
       performanceMetrics :=
         Some \<lparr>sttLatency = 1500, apiLatency = 500, ttsLatency = 700, totalLatency = 2400,
               playbackStart = 1200\<rparr>\<rparr>"

text \<open>The model is not loaded and nothing is being recorded.\<close>

definition closure_unready :: closure where
  "closure_unready = render state_init"

text \<open>A recorder for the sample runs: starting and stopping only flip \<open>isRecording\<close>.\<close>

definition startRecording0 :: "state \<Rightarrow> state" where
  "startRecording0 s = s\<lparr>isRecording := True\<rparr>"

definition stopRecording0 :: "state \<Rightarrow> state" where
  "stopRecording0 s = s\<lparr>isRecording := False\<rparr>"


section \<open>The states of the component\<close>




section \<open>Auxiliary facts\<close>

text \<open>\<open>includes_str\<close> is the contiguous-sublist relation of the list library.\<close>

lemma includes_str_sublist: "includes_str s sub = sublist sub s"
  by (induction s) (auto simp: sublist_Cons_right)

lemma generateFallbackResponse_state:
  "\<exists>n. snd (generateFallbackResponse e i s) = s\<lparr>ticks := ticks s + n\<rparr>"
proof -
  have "snd (generateFallbackResponse e i s) = s\<lparr>ticks := ticks s + 0\<rparr>
      \<or> snd (generateFallbackResponse e i s) = s\<lparr>ticks := ticks s + 1\<rparr>"
    by (simp add: generateFallbackResponse_def Let_def dateNow_def split_beta)
  then show ?thesis by blast
qed

lemma getOfflineResponse_state:
  "\<exists>n. snd (getOfflineResponse e i s) = s\<lparr>ticks := ticks s + n\<rparr>"
proof -
  have "snd (getOfflineResponse e i s) = s\<lparr>ticks := ticks s + 0\<rparr>
      \<or> snd (getOfflineResponse e i s) = s\<lparr>ticks := ticks s + 1\<rparr>"
    by (simp add: getOfflineResponse_def Let_def dateNow_def split_beta)
  then show ?thesis by blast
qed

lemma getOfflineResponse_ticks:
  "ticks s = ticks s' \<Longrightarrow> fst (getOfflineResponse e i s) = fst (getOfflineResponse e i s')"
  by (simp add: getOfflineResponse_def Let_def dateNow_def split_beta)

lemma chatCompletion_run:
  "\<exists>reply k1 k2 n evs.
     chatCompletion e c msgs s =
       (Inr (reply, clock e k2 - clock e k1),
        s\<lparr>ticks := ticks s + n, effects := effects s @ evs\<rparr>) \<and>
     ticks s \<le> k1 \<and> k1 \<le> k2 \<and> k2 < ticks s + n \<and>
     set evs \<subseteq> {Fetch (client_apiKey c) (map (\<lambda>msg. (role msg, content msg)) msgs),
                ConsoleError ''OpenAI API Error:''} \<and>
     Fetch (client_apiKey c) (map (\<lambda>msg. (role msg, content msg)) msgs) \<in> set evs"
proof (cases "fetch e (client_apiKey c) (map (\<lambda>msg. (role msg, content msg)) msgs)")
  case (Responded x)
  let ?r = "case x of None \<Rightarrow> ''Sorry, I could not generate a response.''
            | Some y \<Rightarrow> if y = [] then ''Sorry, I could not generate a response.'' else y"
  have "chatCompletion e c msgs s =
          (Inr (?r, clock e (Suc (ticks s)) - clock e (ticks s)),
           s\<lparr>ticks := ticks s + 2,
             effects := effects s @ [Fetch (client_apiKey c) (map (\<lambda>msg. (role msg, content msg)) msgs)]\<rparr>)"
    using Responded by (simp add: chatCompletion_def Let_def dateNow_def emit_def)
  then show ?thesis
    by (intro exI [of _ ?r] exI [of _ "ticks s"] exI [of _ "Suc (ticks s)"] exI [of _ 2]
        exI [of _ "[Fetch (client_apiKey c) (map (\<lambda>msg. (role msg, content msg)) msgs)]"]) simp
next
  case NoChoices
  let ?f = "Fetch (client_apiKey c) (map (\<lambda>msg. (role msg, content msg)) msgs)"
  let ?i = "if msgs = [] then [] else content (last msgs)"
  define s4 where "s4 = s\<lparr>ticks := ticks s + 3, effects := effects s @ [?f, ConsoleError ''OpenAI API Error:'']\<rparr>"
  have s4': "s\<lparr>effects := effects s @ [?f, ConsoleError ''OpenAI API Error:''], ticks := Suc (Suc (Suc (ticks s)))\<rparr> = s4"
    by (simp add: s4_def)
  obtain n where n: "snd (generateFallbackResponse e ?i s4) = s4\<lparr>ticks := ticks s4 + n\<rparr>"
    using generateFallbackResponse_state by blast
  have "chatCompletion e c msgs s =
          (Inr (fst (generateFallbackResponse e ?i s4), clock e (Suc (Suc (ticks s))) - clock e (ticks s)),
           snd (generateFallbackResponse e ?i s4))"
    using NoChoices by (simp add: chatCompletion_def Let_def dateNow_def emit_def split_beta s4')
  with n have "chatCompletion e c msgs s =
          (Inr (fst (generateFallbackResponse e ?i s4), clock e (Suc (Suc (ticks s))) - clock e (ticks s)),
           s\<lparr>ticks := ticks s + (3 + n), effects := effects s @ [?f, ConsoleError ''OpenAI API Error:'']\<rparr>)"
    by (simp add: s4_def add.assoc)
  then show ?thesis
    by (intro exI [of _ "fst (generateFallbackResponse e ?i s4)"] exI [of _ "ticks s"]
        exI [of _ "Suc (Suc (ticks s))"] exI [of _ "3 + n"]
        exI [of _ "[?f, ConsoleError ''OpenAI API Error:'']"]) simp
next
  case Failed
  let ?f = "Fetch (client_apiKey c) (map (\<lambda>msg. (role msg, content msg)) msgs)"
  let ?i = "if msgs = [] then [] else content (last msgs)"
  define s4 where "s4 = s\<lparr>ticks := ticks s + 2, effects := effects s @ [?f, ConsoleError ''OpenAI API Error:'']\<rparr>"
  have s4': "s\<lparr>effects := effects s @ [?f, ConsoleError ''OpenAI API Error:''], ticks := Suc (Suc (ticks s))\<rparr> = s4"
    by (simp add: s4_def)
  obtain n where n: "snd (generateFallbackResponse e ?i s4) = s4\<lparr>ticks := ticks s4 + n\<rparr>"
    using generateFallbackResponse_state by blast
  have "chatCompletion e c msgs s =
          (Inr (fst (generateFallbackResponse e ?i s4), clock e (Suc (ticks s)) - clock e (ticks s)),
           snd (generateFallbackResponse e ?i s4))"
    using Failed by (simp add: chatCompletion_def Let_def dateNow_def emit_def split_beta s4')
  with n have "chatCompletion e c msgs s =
          (Inr (fst (generateFallbackResponse e ?i s4), clock e (Suc (ticks s)) - clock e (ticks s)),
           s\<lparr>ticks := ticks s + (2 + n), effects := effects s @ [?f, ConsoleError ''OpenAI API Error:'']\<rparr>)"
    by (simp add: s4_def add.assoc)
  then show ?thesis
    by (intro exI [of _ "fst (generateFallbackResponse e ?i s4)"] exI [of _ "ticks s"]
        exI [of _ "Suc (ticks s)"] exI [of _ "2 + n"]
        exI [of _ "[?f, ConsoleError ''OpenAI API Error:'']"]) simp
qed

lemma offlineCompletion_run:
  "\<exists>k n. offlineCompletion e txt t0 s =
       (Inr (fst (getOfflineResponse e txt s), clock e k - t0), s\<lparr>ticks := ticks s + n\<rparr>) \<and>
     ticks s \<le> k \<and> k < ticks s + n"
proof -
  obtain n where n: "snd (getOfflineResponse e txt s) = s\<lparr>ticks := ticks s + n\<rparr>"
    using getOfflineResponse_state by blast
  have "offlineCompletion e txt t0 s =
          (Inr (fst (getOfflineResponse e txt s), clock e (ticks (snd (getOfflineResponse e txt s))) - t0),
           (snd (getOfflineResponse e txt s))\<lparr>ticks := Suc (ticks (snd (getOfflineResponse e txt s)))\<rparr>)"
    by (simp add: offlineCompletion_def Let_def dateNow_def split_beta)
  with n have "offlineCompletion e txt t0 s =
          (Inr (fst (getOfflineResponse e txt s), clock e (ticks s + n) - t0),
           s\<lparr>ticks := ticks s + (n + 1)\<rparr>)"
    by simp
  then show ?thesis
    by (intro exI [of _ "ticks s + n"] exI [of _ "n + 1"]) simp
qed


lemma complete_run:
  "\<exists>reply k1 k2 n evs.
     handleTranscript_complete chatCompletion e cl txt um s =
       (Inr (reply, clock e k2 - clock e k1),
        s\<lparr>ticks := ticks s + n, effects := effects s @ evs\<rparr>) \<and>
     ticks s \<le> k1 \<and> k1 \<le> k2 \<and> k2 < ticks s + n \<and>
     Playing True \<notin> set evs \<and> (\<forall>x. Status x \<notin> set evs) \<and>
     (c_isOnline cl \<or> (evs = [] \<and>
        reply = fst (getOfflineResponse e txt (s\<lparr>ticks := Suc (ticks s)\<rparr>)))) \<and>
     (\<forall>c. c_isOnline cl \<and> openaiClientRef s = Some c \<longrightarrow>
        Fetch (client_apiKey c) (map (\<lambda>msg. (role msg, content msg)) (c_messages cl @ [um]))
          \<in> set evs)"
proof -
  let ?s1 = "s\<lparr>ticks := Suc (ticks s)\<rparr>"
  have off: ?thesis
    if h: "handleTranscript_complete chatCompletion e cl txt um s =
             offlineCompletion e txt (clock e (ticks s)) ?s1"
      and h': "c_isOnline cl \<Longrightarrow> openaiClientRef s = None"
  proof -
    obtain k n where kn: "offlineCompletion e txt (clock e (ticks s)) ?s1 =
        (Inr (fst (getOfflineResponse e txt ?s1), clock e k - clock e (ticks s)),
         ?s1\<lparr>ticks := ticks ?s1 + n\<rparr>)" "ticks ?s1 \<le> k" "k < ticks ?s1 + n"
      using offlineCompletion_run by blast
    from h h' kn show ?thesis
      by (intro exI [of _ "fst (getOfflineResponse e txt ?s1)"] exI [of _ "ticks s"]
          exI [of _ k] exI [of _ "Suc n"] exI [of _ "[]"]) auto
  qed
  show ?thesis
  proof (cases "c_isOnline cl")
    case False
    then show ?thesis
      by (intro off) (simp_all add: handleTranscript_complete_def Let_def dateNow_def)
  next
    case True
    show ?thesis
    proof (cases "openaiClientRef s")
      case None
      with True show ?thesis
        by (intro off) (simp_all add: handleTranscript_complete_def Let_def dateNow_def)
    next
      case (Some c)
      obtain reply k1 k2 n evs where r:
        "chatCompletion e c (c_messages cl @ [um]) ?s1 =
           (Inr (reply, clock e k2 - clock e k1),
            ?s1\<lparr>ticks := ticks ?s1 + n, effects := effects ?s1 @ evs\<rparr>)"
        "ticks ?s1 \<le> k1" "k1 \<le> k2" "k2 < ticks ?s1 + n"
        "set evs \<subseteq> {Fetch (client_apiKey c) (map (\<lambda>msg. (role msg, content msg)) (c_messages cl @ [um])),
                ConsoleError ''OpenAI API Error:''}"
        "Fetch (client_apiKey c) (map (\<lambda>msg. (role msg, content msg)) (c_messages cl @ [um]))
           \<in> set evs"
        using chatCompletion_run by blast
      have h: "handleTranscript_complete chatCompletion e cl txt um s =
                 chatCompletion e c (c_messages cl @ [um]) ?s1"
        using True Some by (simp add: handleTranscript_complete_def Let_def dateNow_def)
      from r(5) have "Playing True \<notin> set evs" "\<forall>x. Status x \<notin> set evs" by auto
      with h r(1-4,6) True Some show ?thesis
        by (intro exI [of _ reply] exI [of _ k1] exI [of _ k2] exI [of _ "Suc n"]
            exI [of _ evs]) simp
    qed
  qed
qed

lemma tts_skip:
  "ttsEngineRef s = None \<or> \<not> c_isTTSLoaded cl \<Longrightarrow>
   handleTranscript_tts e cl stt api t0 r s = s"
  by (auto simp: handleTranscript_tts_def split: option.splits)

lemma tts_fail:
  assumes "ttsEngineRef s = Some tts" "c_isTTSLoaded cl"
    and "\<not> (tts_isLoaded tts \<and> hasAudioContext tts)"
  shows "\<exists>n. handleTranscript_tts e cl stt api t0 r s =
           s\<lparr>ticks := ticks s + n, currentStatus := ''TTS error, but response received'',
             effects := effects s @ [ConsoleError ''TTS Error:'',
                                     Status ''TTS error, but response received'']\<rparr>"
proof (cases "tts_isLoaded tts")
  case True
  with assms show ?thesis
    by (intro exI [of _ 2])
      (simp add: handleTranscript_tts_def synthesize_def Let_def dateNow_def emit_def
        setCurrentStatus_def)
next
  case False
  with assms show ?thesis
    by (intro exI [of _ 1])
      (simp add: handleTranscript_tts_def synthesize_def Let_def dateNow_def emit_def
        setCurrentStatus_def)
qed

lemma tts_ok:
  assumes "ttsEngineRef s = Some tts" "c_isTTSLoaded cl" "tts_isLoaded tts" "hasAudioContext tts"
  shows "handleTranscript_tts e cl stt api t0 r s =
           s\<lparr>ticks := ticks s + 5, isPlaying := False, currentStatus := ''Ready to chat!'',
             performanceMetrics :=
               Some \<lparr>sttLatency = stt, apiLatency = api,
                     ttsLatency = clock e (ticks s + 2) - clock e (ticks s + 1),
                     totalLatency = clock e (ticks s + 4) - t0,
                     playbackStart = clock e (ticks s + 3) - t0\<rparr>,
             effects := effects s @ [Status ''Playing audio...'', Playing True,
                                     Play (AudioBuffer r), Playing False,
                                     Status ''Ready to chat!'']\<rparr>"
  using assms
  by (simp add: handleTranscript_tts_def synthesize_def Let_def dateNow_def emit_def
      setCurrentStatus_def setIsPlaying_def playAudio_def setPerformanceMetrics_def
      numeral_eq_Suc)

lemma tts_frame:
  "messages (handleTranscript_tts e cl stt api t0 r s) = messages s"
  "filter isFetch (effects (handleTranscript_tts e cl stt api t0 r s)) = filter isFetch (effects s)"
  "isProcessing (handleTranscript_tts e cl stt api t0 r s) = isProcessing s"
  "prefix (effects s) (effects (handleTranscript_tts e cl stt api t0 r s))"
  by (simp_all add: handleTranscript_tts_def synthesize_def Let_def dateNow_def emit_def
      setCurrentStatus_def setIsPlaying_def playAudio_def setPerformanceMetrics_def
      split: option.splits)

lemma handleTranscript_begin_eq:
  "handleTranscript_begin e txt s =
     (clock e (ticks s), \<lparr>role = User, content = txt, timestamp = clock e (Suc (ticks s))\<rparr>,
      s\<lparr>ticks := ticks s + 2,
        messages := messages s @
          [\<lparr>role = User, content = txt, timestamp = clock e (Suc (ticks s))\<rparr>],
        currentStatus := ''Getting AI response...'',
        effects := effects s @ [Status ''Getting AI response...'']\<rparr>)"
  by (simp add: handleTranscript_begin_def Let_def dateNow_def setMessages_def
      setCurrentStatus_def)

lemma handleTranscript_run:
  "\<exists>reply k1 k2 n evs S.
     handleTranscript e cl txt stt s =
       setIsProcessing False
         (handleTranscript_tts e cl stt (clock e k2 - clock e k1) (clock e (ticks s)) reply S) \<and>
     S = s\<lparr>ticks := ticks s + n + 3,
           messages := messages s @
             [\<lparr>role = User, content = txt, timestamp = clock e (Suc (ticks s))\<rparr>,
              \<lparr>role = Assistant, content = reply, timestamp = clock e (ticks s + n + 2)\<rparr>],
           currentStatus := ''Synthesizing speech...'',
           effects := effects s @ [Status ''Getting AI response...''] @ evs @
                      [Status ''Synthesizing speech...'']\<rparr> \<and>
     fst (handleTranscript_complete chatCompletion e cl txt
            (fst (snd (handleTranscript_begin e txt s)))
            (snd (snd (handleTranscript_begin e txt s)))) =
       Inr (reply, clock e k2 - clock e k1) \<and>
     ticks s \<le> k1 \<and> k1 \<le> k2 \<and> k2 < ticks s + n + 2 \<and>
     Playing True \<notin> set evs \<and> (\<forall>x. Status x \<notin> set evs) \<and>
     (c_isOnline cl \<or> (evs = [] \<and>
        reply = fst (getOfflineResponse e txt (s\<lparr>ticks := ticks s + 3\<rparr>)))) \<and>
     (\<forall>c. c_isOnline cl \<and> openaiClientRef s = Some c \<longrightarrow>
        Fetch (client_apiKey c)
          (map (\<lambda>msg. (role msg, content msg))
             (c_messages cl @ [\<lparr>role = User, content = txt, timestamp = clock e (Suc (ticks s))\<rparr>]))
          \<in> set evs)"
proof -
  let ?um = "\<lparr>role = User, content = txt, timestamp = clock e (Suc (ticks s))\<rparr>"
  define s1 where "s1 = s\<lparr>ticks := ticks s + 2, messages := messages s @ [?um],
     currentStatus := ''Getting AI response...'',
     effects := effects s @ [Status ''Getting AI response...'']\<rparr>"
  have b: "handleTranscript_begin e txt s = (clock e (ticks s), ?um, s1)"
    by (simp add: handleTranscript_begin_eq s1_def)
  obtain reply k1 k2 n evs where c:
    "handleTranscript_complete chatCompletion e cl txt ?um s1 =
       (Inr (reply, clock e k2 - clock e k1),
        s1\<lparr>ticks := ticks s1 + n, effects := effects s1 @ evs\<rparr>)"
    "ticks s1 \<le> k1" "k1 \<le> k2" "k2 < ticks s1 + n"
    "Playing True \<notin> set evs" "\<forall>x. Status x \<notin> set evs"
    "c_isOnline cl \<or> (evs = [] \<and>
        reply = fst (getOfflineResponse e txt (s1\<lparr>ticks := Suc (ticks s1)\<rparr>)))"
    "\<forall>c. c_isOnline cl \<and> openaiClientRef s1 = Some c \<longrightarrow>
        Fetch (client_apiKey c) (map (\<lambda>msg. (role msg, content msg)) (c_messages cl @ [?um]))
          \<in> set evs"
    using complete_run [of e cl "txt" "?um" s1] by blast
  define S where "S = s\<lparr>ticks := ticks s + n + 3,
           messages := messages s @
             [?um, \<lparr>role = Assistant, content = reply, timestamp = clock e (ticks s + n + 2)\<rparr>],
           currentStatus := ''Synthesizing speech...'',
           effects := effects s @ [Status ''Getting AI response...''] @ evs @
                      [Status ''Synthesizing speech...'']\<rparr>"
  have t: "handleTranscript_try chatCompletion e cl txt stt (clock e (ticks s)) ?um s1 =
     (Inr (), handleTranscript_tts e cl stt (clock e k2 - clock e k1) (clock e (ticks s)) reply S)"
  proof -
    have "setCurrentStatus ''Synthesizing speech...''
            (setMessages (\<lambda>prev. prev @ [\<lparr>role = Assistant, content = reply,
                timestamp = clock e (ticks s1 + n)\<rparr>])
              (s1\<lparr>ticks := ticks s1 + n, effects := effects s1 @ evs,
                  ticks := Suc (ticks s1 + n)\<rparr>)) = S"
      by (simp add: S_def s1_def setCurrentStatus_def setMessages_def add.commute add.left_commute)
    then show ?thesis
      by (simp add: handleTranscript_try_def c(1) Let_def dateNow_def)
  qed
  have g: "fst (getOfflineResponse e txt (s1\<lparr>ticks := Suc (ticks s1)\<rparr>)) =
           fst (getOfflineResponse e txt (s\<lparr>ticks := ticks s + 3\<rparr>))"
    by (rule getOfflineResponse_ticks) (simp add: s1_def)
  have r: "handleTranscript e cl txt stt s =
       setIsProcessing False
         (handleTranscript_tts e cl stt (clock e k2 - clock e k1) (clock e (ticks s)) reply S)"
    by (simp add: handleTranscript_def handleTranscriptWith_def b t)
  have k: "ticks s \<le> k1" "k2 < ticks s + n + 2"
    using c(2,4) by (simp_all add: s1_def)
  have f: "fst (handleTranscript_complete chatCompletion e cl txt
            (fst (snd (handleTranscript_begin e txt s)))
            (snd (snd (handleTranscript_begin e txt s)))) =
       Inr (reply, clock e k2 - clock e k1)"
    by (simp add: b c(1))
  have o: "openaiClientRef s1 = openaiClientRef s"
    by (simp add: s1_def)
  show ?thesis
    using r k f c(3,5,6,7,8) g S_def o
    by (intro exI [of _ reply] exI [of _ k1] exI [of _ k2] exI [of _ n] exI [of _ evs]
        exI [of _ S]) simp
qed

lemma mono_clock0: "mono clock0"
  by (auto simp: mono_def clock0_def)

lemmas run_defs =
  handleTranscript_def handleTranscriptWith_def handleTranscript_begin_def
  handleTranscript_try_def handleTranscript_complete_def handleTranscript_catch_def
  offlineCompletion_def chatCompletion_def handleTranscript_tts_def synthesize_def
  playAudio_def dateNow_def emit_def setMessages_def setCurrentStatus_def setIsPlaying_def
  setIsProcessing_def setPerformanceMetrics_def Let_def

section \<open>Latency metrics of a full run\<close>

text \<open>
  C1, as amended. A run of \<open>handleTranscript\<close> that goes through synthesis and playback
  (an engine is present, the component's flag for it is set, the engine is loaded and has an
  audio context) publishes a snapshot. With a clock that never runs backwards the snapshot
  carries the \<open>sttLatency\<close> that was handed to \<open>handleTranscript\<close>, and satisfies
  \<open>totalLatency \<ge> apiLatency + ttsLatency\<close> and \<open>playbackStart \<ge> apiLatency\<close> (even
  \<open>playbackStart \<ge> apiLatency + ttsLatency\<close>, and \<open>totalLatency \<ge> playbackStart\<close>).
  The clock of the run is read at the entry of \<open>handleTranscript\<close>, when the transcript has
  arrived, so the time of transcription is in neither \<open>totalLatency\<close> nor \<open>playbackStart\<close>.
\<close>

theorem metrics_lower_bounds:
  assumes "mono (clock e)"
    and "ttsEngineRef s = Some tts" and "c_isTTSLoaded cl"
    and "tts_isLoaded tts" and "hasAudioContext tts"
  shows "\<exists>m. performanceMetrics (handleTranscript e cl txt stt s) = Some m \<and>
           sttLatency m = stt \<and>
           apiLatency m + ttsLatency m \<le> totalLatency m \<and>
           apiLatency m \<le> playbackStart m \<and>
           apiLatency m + ttsLatency m \<le> playbackStart m \<and>
           playbackStart m \<le> totalLatency m"
proof -
  obtain reply k1 k2 n evs S where r:
    "handleTranscript e cl txt stt s =
       setIsProcessing False
         (handleTranscript_tts e cl stt (clock e k2 - clock e k1) (clock e (ticks s)) reply S)"
    "S = s\<lparr>ticks := ticks s + n + 3,
           messages := messages s @
             [\<lparr>role = User, content = txt, timestamp = clock e (Suc (ticks s))\<rparr>,
              \<lparr>role = Assistant, content = reply, timestamp = clock e (ticks s + n + 2)\<rparr>],
           currentStatus := ''Synthesizing speech...'',
           effects := effects s @ [Status ''Getting AI response...''] @ evs @
                      [Status ''Synthesizing speech...'']\<rparr>"
    "ticks s \<le> k1" "k1 \<le> k2" "k2 < ticks s + n + 2"
    using handleTranscript_run [of e cl "txt" stt s] by blast
  have S: "ttsEngineRef S = Some tts" "ticks S = ticks s + n + 3"
    using assms(2) r(2) by simp_all
  let ?m = "\<lparr>sttLatency = stt, apiLatency = clock e k2 - clock e k1,
             ttsLatency = clock e (ticks S + 2) - clock e (ticks S + 1),
             totalLatency = clock e (ticks S + 4) - clock e (ticks s),
             playbackStart = clock e (ticks S + 3) - clock e (ticks s)\<rparr>"
  have m: "performanceMetrics (handleTranscript e cl txt stt s) = Some ?m"
    by (simp add: r(1) tts_ok [OF S(1) assms(3,4,5)] setIsProcessing_def)
  have c: "clock e (ticks s) \<le> clock e k1" "clock e k2 \<le> clock e (ticks S + 1)"
    "clock e (ticks S + 2) \<le> clock e (ticks S + 3)"
    "clock e (ticks S + 3) \<le> clock e (ticks S + 4)"
    "clock e k1 \<le> clock e k2" "clock e (ticks S + 1) \<le> clock e (ticks S + 2)"
    using r(3,4,5) S(2) by (auto intro!: monoD [OF assms(1)])
  show ?thesis
    using c by (intro exI [of _ ?m]) (simp add: m)
qed

theorem metrics_lower_bounds_witness:
  "\<exists>m. performanceMetrics
          (handleTranscript env0 (render state0) ''Hello, how are you today?'' 3000 state0) = Some m \<and>
       sttLatency m = 3000 \<and>
       apiLatency m + ttsLatency m \<le> totalLatency m \<and>
       apiLatency m \<le> playbackStart m \<and>
       apiLatency m + ttsLatency m \<le> playbackStart m \<and>
       playbackStart m \<le> totalLatency m"
  using metrics_lower_bounds [of env0 state0 "\<lparr>tts_isLoaded = True, hasAudioContext = True\<rparr>"
      "render state0" "''Hello, how are you today?''" 3000] mono_clock0
  by (simp add: env0_def state0_def render_def)

text \<open>
  C1 as stated asks for \<open>totalLatency \<ge> sttLatency + apiLatency + ttsLatency\<close> and
  \<open>playbackStart \<ge> sttLatency + apiLatency\<close>. The sample run is a full successful run:
  transcription took 3000 ms, the reply 500 ms, synthesis 500 ms and playback 1000 ms. It
  publishes a total of 2000 ms and a playback start of 1000 ms.
\<close>

theorem total_excludes_stt:
  "\<exists>m. performanceMetrics
          (handleTranscript env0 (render state0) ''Hello, how are you today?'' 3000 state0) = Some m \<and>
       m = \<lparr>sttLatency = 3000, apiLatency = 500, ttsLatency = 500, totalLatency = 2000,
            playbackStart = 1000\<rparr> \<and>
       totalLatency m < sttLatency m + apiLatency m + ttsLatency m \<and>
       playbackStart m < sttLatency m + apiLatency m"
  by (simp add: run_defs env0_def state0_def render_def clock0_def)

section \<open>Offline mode\<close>

lemma offline_ignores_client:
  "\<not> c_isOnline cl \<Longrightarrow>
   handleTranscriptWith chat e cl txt stt s = handleTranscriptWith chat' e cl txt stt s"
  by (simp add: handleTranscriptWith_def handleTranscript_try_def handleTranscript_complete_def
      Let_def split_beta)

text \<open>
  C5. In every run whose closure has \<open>isOnline\<close> false, no request is sent (the requests in
  the trace are those that were there before the run), the run is the same whatever the
  completion client would do, and the conversation gains the user turn and an assistant turn
  whose content is the answer of \<open>getOfflineResponse\<close> to the transcript.
\<close>

theorem offline_never_calls_remote:
  assumes "\<not> c_isOnline cl"
  shows "filter isFetch (effects (handleTranscript e cl txt stt s)) = filter isFetch (effects s) \<and>
         (\<exists>ts. messages (handleTranscript e cl txt stt s) =
            messages s @
              [\<lparr>role = User, content = txt, timestamp = clock e (Suc (ticks s))\<rparr>,
               \<lparr>role = Assistant,
                 content = fst (getOfflineResponse e txt (s\<lparr>ticks := ticks s + 3\<rparr>)),
                 timestamp = ts\<rparr>]) \<and>
         (\<forall>chat. handleTranscriptWith chat e cl txt stt s = handleTranscript e cl txt stt s)"
proof -
  obtain reply k1 k2 n evs S where r:
    "handleTranscript e cl txt stt s =
       setIsProcessing False
         (handleTranscript_tts e cl stt (clock e k2 - clock e k1) (clock e (ticks s)) reply S)"
    "S = s\<lparr>ticks := ticks s + n + 3,
           messages := messages s @
             [\<lparr>role = User, content = txt, timestamp = clock e (Suc (ticks s))\<rparr>,
              \<lparr>role = Assistant, content = reply, timestamp = clock e (ticks s + n + 2)\<rparr>],
           currentStatus := ''Synthesizing speech...'',
           effects := effects s @ [Status ''Getting AI response...''] @ evs @
                      [Status ''Synthesizing speech...'']\<rparr>"
    "c_isOnline cl \<or> (evs = [] \<and>
        reply = fst (getOfflineResponse e txt (s\<lparr>ticks := ticks s + 3\<rparr>)))"
    using handleTranscript_run [of e cl "txt" stt s] by blast
  from r(3) assms have o: "evs = []"
    "reply = fst (getOfflineResponse e txt (s\<lparr>ticks := ticks s + 3\<rparr>))"
    by simp_all
  have "filter isFetch (effects (handleTranscript e cl txt stt s)) = filter isFetch (effects S)"
    by (simp add: r(1) setIsProcessing_def tts_frame)
  then have f: "filter isFetch (effects (handleTranscript e cl txt stt s)) = filter isFetch (effects s)"
    by (simp add: r(2) o(1))
  have "messages (handleTranscript e cl txt stt s) = messages S"
    by (simp add: r(1) setIsProcessing_def tts_frame)
  then have m: "messages (handleTranscript e cl txt stt s) =
            messages s @
              [\<lparr>role = User, content = txt, timestamp = clock e (Suc (ticks s))\<rparr>,
               \<lparr>role = Assistant,
                 content = fst (getOfflineResponse e txt (s\<lparr>ticks := ticks s + 3\<rparr>)),
                 timestamp = clock e (ticks s + n + 2)\<rparr>]"
    by (simp add: r(2) o(2))
  have c: "\<forall>chat. handleTranscriptWith chat e cl txt stt s = handleTranscript e cl txt stt s"
    unfolding handleTranscript_def using offline_ignores_client [OF assms] by blast
  from f m c show ?thesis by blast
qed

theorem offline_never_calls_remote_witness:
  "filter isFetch (effects (handleTranscript env0 (render state_offline) ''What's the weather like?'' 1200 state_offline)) =
     filter isFetch (effects state_offline) \<and>
   (\<exists>ts. messages (handleTranscript env0 (render state_offline) ''What's the weather like?'' 1200 state_offline) =
      messages state_offline @
        [\<lparr>role = User, content = ''What's the weather like?'',
           timestamp = clock env0 (Suc (ticks state_offline))\<rparr>,
         \<lparr>role = Assistant,
           content = fst (getOfflineResponse env0 ''What's the weather like?''
                            (state_offline\<lparr>ticks := ticks state_offline + 3\<rparr>)),
           timestamp = ts\<rparr>]) \<and>
   (\<forall>chat. handleTranscriptWith chat env0 (render state_offline) ''What's the weather like?'' 1200 state_offline =
      handleTranscript env0 (render state_offline) ''What's the weather like?'' 1200 state_offline)"
  by (rule offline_never_calls_remote)
    (simp add: state_offline_def state_tts_down_def state0_def render_def)

section \<open>Runs that skip synthesis or playback\<close>

text \<open>
  C8, as amended. After a run in which synthesis was skipped (no engine object, or the
  component's flag for it not set) or failed, the published \<open>PerformanceMetrics\<close> is what it
  was before the run: no snapshot is produced for that run, neither a partial one nor one
  with zeros. (A run that reaches the end of playback publishes a snapshot, whose five fields are all
  numbers.)
\<close>

theorem no_snapshot_without_playback:
  assumes "ttsEngineRef s = None \<or> \<not> c_isTTSLoaded cl \<or>
           (\<exists>tts. ttsEngineRef s = Some tts \<and> \<not> (tts_isLoaded tts \<and> hasAudioContext tts))"
  shows "performanceMetrics (handleTranscript e cl txt stt s) = performanceMetrics s"
proof -
  obtain reply k1 k2 n evs S where r:
    "handleTranscript e cl txt stt s =
       setIsProcessing False
         (handleTranscript_tts e cl stt (clock e k2 - clock e k1) (clock e (ticks s)) reply S)"
    "S = s\<lparr>ticks := ticks s + n + 3,
           messages := messages s @
             [\<lparr>role = User, content = txt, timestamp = clock e (Suc (ticks s))\<rparr>,
              \<lparr>role = Assistant, content = reply, timestamp = clock e (ticks s + n + 2)\<rparr>],
           currentStatus := ''Synthesizing speech...'',
           effects := effects s @ [Status ''Getting AI response...''] @ evs @
                      [Status ''Synthesizing speech...'']\<rparr>"
    using handleTranscript_run [of e cl "txt" stt s] by blast
  have S: "ttsEngineRef S = ttsEngineRef s" "performanceMetrics S = performanceMetrics s"
    by (simp_all add: r(2))
  let ?T = "handleTranscript_tts e cl stt (clock e k2 - clock e k1) (clock e (ticks s)) reply S"
  have "performanceMetrics ?T = performanceMetrics S"
  proof (cases "ttsEngineRef s = None \<or> \<not> c_isTTSLoaded cl")
    case True
    then have "?T = S" by (intro tts_skip) (simp add: S(1))
    then show ?thesis by simp
  next
    case False
    with assms obtain tts where t: "ttsEngineRef S = Some tts" "c_isTTSLoaded cl"
      "\<not> (tts_isLoaded tts \<and> hasAudioContext tts)"
      by (auto simp: S(1))
    obtain j where "?T = S\<lparr>ticks := ticks S + j,
        currentStatus := ''TTS error, but response received'',
        effects := effects S @ [ConsoleError ''TTS Error:'',
                                Status ''TTS error, but response received'']\<rparr>"
      using tts_fail [OF t] by blast
    then show ?thesis by simp
  qed
  then show ?thesis
    by (simp add: r(1) setIsProcessing_def S(2))
qed

theorem no_snapshot_without_playback_witness:
  "performanceMetrics (handleTranscript env0 (render state_offline) ''What time is it?'' 900 state_offline) =
     performanceMetrics state_offline"
  by (rule no_snapshot_without_playback)
    (simp add: state_offline_def state_tts_down_def state0_def render_def)

text \<open>
  C8 as stated asks for a snapshot after a run that skipped a stage. In the sample run the
  component's flag for the synthesis engine is not set: the reply is recorded, the run ends,
  and the published metrics are still absent.
\<close>

theorem skipped_synthesis_publishes_nothing:
  "performanceMetrics (handleTranscript env0 (render state_tts_unready) ''Hello, how are you today?'' 3000 state_tts_unready) = None \<and>
   messages (handleTranscript env0 (render state_tts_unready) ''Hello, how are you today?'' 3000 state_tts_unready) =
     [\<lparr>role = User, content = ''Hello, how are you today?'', timestamp = 0\<rparr>,
      \<lparr>role = Assistant, content = ''Hello! How can I help?'', timestamp = 500\<rparr>] \<and>
   \<not> isProcessing (handleTranscript env0 (render state_tts_unready) ''Hello, how are you today?'' 3000 state_tts_unready)"
  by (simp add: run_defs env0_def state_tts_unready_def state0_def render_def clock0_def)

section \<open>The capture gate\<close>

text \<open>
  C7. A click on the record button while nothing is being recorded is a request to begin a
  capture. Whenever the model is not loaded, such a request only raises the alert: the state
  of the component is unchanged (the alert in the trace apart), and neither the recorder's
  \<open>startRecording\<close> nor its \<open>stopRecording\<close> is called, whatever they would do.
\<close>

theorem begin_capture_rejected_when_not_ready:
  assumes "\<not> c_isModelLoaded cl" and "\<not> c_isRecording cl"
  shows "handleRecordingToggle startRecording stopRecording cl s =
           s\<lparr>effects := effects s @ [Alert ''Please wait for the Whisper model to load first!'']\<rparr>"
  using assms by (simp add: handleRecordingToggle_def emit_def)

theorem begin_capture_rejected_when_not_ready_witness:
  "handleRecordingToggle startRecording0 stopRecording0 closure_unready state_init =
     state_init\<lparr>effects := effects state_init @
        [Alert ''Please wait for the Whisper model to load first!'']\<rparr> \<and>
   \<not> isRecording (handleRecordingToggle startRecording0 stopRecording0 closure_unready state_init) \<and>
   isRecording (startRecording0 state_init)"
  using begin_capture_rejected_when_not_ready
    [of closure_unready startRecording0 stopRecording0 state_init]
  by (simp add: closure_unready_def render_def state_init_def startRecording0_def)

section \<open>Keyword matching by substring\<close>

text \<open>
  C9. For every input whose lower-cased text contains \<open>hi\<close> as a substring, wherever it
  stands, the fallback responder of the client and the offline responder of the component
  both return their greeting: the greeting branch is the first one tested.
\<close>

theorem hi_substring_greets:
  assumes "includes_str (toLowerCase input) ''hi''"
  shows "fst (generateFallbackResponse e input s) =
           ''Hello! I'm your AI assistant. How can I help you today?'' \<and>
         fst (getOfflineResponse e input s') =
           ''Hello! I'm running in offline mode with local speech processing. How can I help you?''"
  using assms by (simp add: generateFallbackResponse_def getOfflineResponse_def)

theorem hi_substring_greets_witness:
  "includes_str (toLowerCase ''How does machine learning work?'') ''hi'' \<and>
   fst (generateFallbackResponse env0 ''How does machine learning work?'' state0) =
     ''Hello! I'm your AI assistant. How can I help you today?'' \<and>
   fst (getOfflineResponse env0 ''How does machine learning work?'' state_offline) =
     ''Hello! I'm running in offline mode with local speech processing. How can I help you?''"
proof -
  have h: "includes_str (toLowerCase ''How does machine learning work?'') ''hi''"
    by (simp add: toLowerCase_def toLowerChar_def)
  from h hi_substring_greets [OF h, of env0 state0 state_offline] show ?thesis by simp
qed

text \<open>The same inside the word "this", written in capitals.\<close>

lemma lower_this: "toLowerCase ''Is THIS on?'' = ''is this on?''"
  by code_simp

lemma hi_inside_this:
  "fst (getOfflineResponse env0 ''Is THIS on?'' state_offline) =
     ''Hello! I'm running in offline mode with local speech processing. How can I help you?''"
  "fst (generateFallbackResponse env_down ''Is THIS on?'' state0) =
     ''Hello! I'm your AI assistant. How can I help you today?''"
  by (simp_all add: generateFallbackResponse_def getOfflineResponse_def lower_this)

section \<open>The completion credential\<close>

text \<open>
  Typing an empty or blank key changes the \<open>apiKey\<close> state and nothing else: the effect on
  \<open>apiKey\<close> runs, and its guard leaves the client reference alone.
\<close>

lemma setApiKey_blank:
  assumes "key = [] \<or> trim key = []"
  shows "setApiKey e key s = s\<lparr>apiKey := key\<rparr>"
proof -
  have a: "apiKeyEffect (render (s\<lparr>apiKey := key\<rparr>)) (s\<lparr>apiKey := key\<rparr>) = s\<lparr>apiKey := key\<rparr>"
    using assms by (auto simp: apiKeyEffect_def render_def)
  have b: "\<not> audioDepsChanged (Some (render s)) (render (s\<lparr>apiKey := key\<rparr>))"
    "\<not> audioDepsChanged (Some (render (s\<lparr>apiKey := key\<rparr>))) (render (s\<lparr>apiKey := key\<rparr>))"
    "\<not> apiKeyDepsChanged (Some (render (s\<lparr>apiKey := key\<rparr>))) (render (s\<lparr>apiKey := key\<rparr>))"
    by (simp_all add: audioDepsChanged_def apiKeyDepsChanged_def render_def)
  have c: "commitEffects e (Some (render s)) (render (s\<lparr>apiKey := key\<rparr>)) (s\<lparr>apiKey := key\<rparr>) =
             s\<lparr>apiKey := key\<rparr>"
    by (simp add: commitEffects_def b a Let_def)
  have d: "commitEffects e (Some (render (s\<lparr>apiKey := key\<rparr>))) (render (s\<lparr>apiKey := key\<rparr>))
             (s\<lparr>apiKey := key\<rparr>) = s\<lparr>apiKey := key\<rparr>"
    by (simp add: commitEffects_def b Let_def)
  show ?thesis
    by (simp add: setApiKey_def rerender_def c d Let_def)
qed

text \<open>A key that is not blank and differs from the current one installs a new client.\<close>

lemma setApiKey_fresh:
  assumes "key \<noteq> []" and "trim key \<noteq> []" and "key \<noteq> apiKey s"
  shows "openaiClientRef (setApiKey e key s) = Some (OpenAIClient key)"
proof -
  let ?s1 = "s\<lparr>apiKey := key\<rparr>"
  let ?s2 = "?s1\<lparr>openaiClientRef := Some (OpenAIClient key)\<rparr>"
  have b: "\<not> audioDepsChanged (Some (render s)) (render ?s1)"
    "apiKeyDepsChanged (Some (render s)) (render ?s1)"
    "\<not> audioDepsChanged (Some (render ?s1)) (render ?s2)"
    "\<not> apiKeyDepsChanged (Some (render ?s1)) (render ?s2)"
    using assms(3) by (auto simp: audioDepsChanged_def apiKeyDepsChanged_def render_def)
  have a: "apiKeyEffect (render ?s1) ?s1 = ?s2"
    using assms(1,2) by (simp add: apiKeyEffect_def render_def)
  have c: "commitEffects e (Some (render s)) (render ?s1) ?s1 = ?s2"
    by (simp add: commitEffects_def b(1,2) a Let_def)
  have d: "commitEffects e (Some (render ?s1)) (render ?s2) ?s2 = ?s2"
    by (simp add: commitEffects_def b(3,4) Let_def)
  show ?thesis
    by (simp add: setApiKey_def rerender_def c d Let_def)
qed

lemma blank_keys_keep_client:
  "\<forall>k\<in>set ks. k = [] \<or> trim k = [] \<Longrightarrow>
   openaiClientRef (foldl (\<lambda>s k. setApiKey e k s) s ks) = openaiClientRef s"
proof (induction ks arbitrary: s)
  case Nil
  show ?case by simp
next
  case (Cons k ks)
  from Cons.prems have k: "k = [] \<or> trim k = []" and ks: "\<forall>k\<in>set ks. k = [] \<or> trim k = []"
    by simp_all
  have "openaiClientRef (foldl (\<lambda>s k. setApiKey e k s) (setApiKey e k s) ks) =
        openaiClientRef (setApiKey e k s)"
    by (rule Cons.IH [OF ks])
  also have "\<dots> = openaiClientRef s"
    by (simp add: setApiKey_blank [OF k])
  finally show ?case by simp
qed

text \<open>A run that is online and finds a client sends that client's request.\<close>

lemma online_run_sends_request:
  assumes "c_isOnline cl" and "openaiClientRef s = Some c"
  shows "Fetch (client_apiKey c)
           (map (\<lambda>msg. (role msg, content msg))
              (c_messages cl @ [\<lparr>role = User, content = txt, timestamp = clock e (Suc (ticks s))\<rparr>]))
         \<in> set (effects (handleTranscript e cl txt stt s))"
proof -
  let ?f = "Fetch (client_apiKey c)
           (map (\<lambda>msg. (role msg, content msg))
              (c_messages cl @ [\<lparr>role = User, content = txt, timestamp = clock e (Suc (ticks s))\<rparr>]))"
  obtain reply k1 k2 n evs S where r:
    "handleTranscript e cl txt stt s =
       setIsProcessing False
         (handleTranscript_tts e cl stt (clock e k2 - clock e k1) (clock e (ticks s)) reply S)"
    "S = s\<lparr>ticks := ticks s + n + 3,
           messages := messages s @
             [\<lparr>role = User, content = txt, timestamp = clock e (Suc (ticks s))\<rparr>,
              \<lparr>role = Assistant, content = reply, timestamp = clock e (ticks s + n + 2)\<rparr>],
           currentStatus := ''Synthesizing speech...'',
           effects := effects s @ [Status ''Getting AI response...''] @ evs @
                      [Status ''Synthesizing speech...'']\<rparr>"
    "\<forall>c. c_isOnline cl \<and> openaiClientRef s = Some c \<longrightarrow>
        Fetch (client_apiKey c)
          (map (\<lambda>msg. (role msg, content msg))
             (c_messages cl @ [\<lparr>role = User, content = txt, timestamp = clock e (Suc (ticks s))\<rparr>]))
          \<in> set evs"
    using handleTranscript_run [of e cl "txt" stt s] by blast
  from r(3) assms have "?f \<in> set evs" by blast
  then have "?f \<in> set (effects S)" by (simp add: r(2))
  moreover have "set (effects S) \<subseteq>
      set (effects (handleTranscript_tts e cl stt (clock e k2 - clock e k1) (clock e (ticks s)) reply S))"
    by (rule set_mono_prefix) (rule tts_frame)
  ultimately show ?thesis
    by (auto simp: r(1) setIsProcessing_def)
qed

text \<open>
  C10. Once a client is configured, any sequence of empty or white-space-only keys typed
  into the credential input leaves that very client in place; a run in online mode after
  them still sends a request with the client's key; and the client is replaced as soon as a
  key is entered that is not blank (and differs from the text currently in the input).
\<close>

theorem blank_credential_keeps_client:
  assumes "openaiClientRef s = Some c"
    and "\<forall>k\<in>set ks. k = [] \<or> trim k = []"
  shows "openaiClientRef (foldl (\<lambda>s k. setApiKey e k s) s ks) = Some c \<and>
         (c_isOnline cl \<longrightarrow>
            (\<exists>body. Fetch (client_apiKey c) body \<in>
               set (effects (handleTranscript e cl txt stt (foldl (\<lambda>s k. setApiKey e k s) s ks))))) \<and>
         (\<forall>k. k \<noteq> [] \<and> trim k \<noteq> [] \<and> k \<noteq> apiKey (foldl (\<lambda>s k. setApiKey e k s) s ks) \<longrightarrow>
            openaiClientRef (setApiKey e k (foldl (\<lambda>s k. setApiKey e k s) s ks)) =
              Some (OpenAIClient k))"
proof (intro conjI impI allI)
  show k: "openaiClientRef (foldl (\<lambda>s k. setApiKey e k s) s ks) = Some c"
    using blank_keys_keep_client [OF assms(2)] assms(1) by simp
  show "\<exists>body. Fetch (client_apiKey c) body \<in>
          set (effects (handleTranscript e cl txt stt (foldl (\<lambda>s k. setApiKey e k s) s ks)))"
    if "c_isOnline cl"
    using online_run_sends_request [OF that k] by (rule exI)
  show "openaiClientRef (setApiKey e k (foldl (\<lambda>s k. setApiKey e k s) s ks)) = Some (OpenAIClient k)"
    if "k \<noteq> [] \<and> trim k \<noteq> [] \<and> k \<noteq> apiKey (foldl (\<lambda>s k. setApiKey e k s) s ks)" for k
    using that by (intro setApiKey_fresh) simp_all
qed

theorem blank_credential_keeps_client_witness:
  "openaiClientRef (foldl (\<lambda>s k. setApiKey env0 k s) state0 [Nil, ''   '', Nil]) =
     Some (OpenAIClient ''sk-test'') \<and>
   (\<exists>body. Fetch ''sk-test'' body \<in>
      set (effects (handleTranscript env0 (render state0) ''Hello, how are you today?'' 3000
             (foldl (\<lambda>s k. setApiKey env0 k s) state0 [Nil, ''   '', Nil])))) \<and>
   openaiClientRef
     (setApiKey env0 ''sk-other'' (foldl (\<lambda>s k. setApiKey env0 k s) state0 [Nil, ''   '', Nil])) =
     Some (OpenAIClient ''sk-other'')"
proof -
  let ?s = "foldl (\<lambda>s k. setApiKey env0 k s) state0 [Nil, ''   '', Nil]"
  have w: "trim ''   '' = []" "trim ''sk-other'' \<noteq> []"
    by (simp_all add: trim_def isWhiteSpace_def)
  have b: "\<forall>k\<in>set [Nil, ''   '', Nil]. k = [] \<or> trim k = []"
    by (simp add: w)
  have s: "openaiClientRef state0 = Some (OpenAIClient ''sk-test'')" "c_isOnline (render state0)"
    by (simp_all add: state0_def render_def)
  have a: "apiKey ?s = []"
    by (simp add: setApiKey_blank w)
  note T = blank_credential_keeps_client [OF s(1) b, of env0 "render state0"
      "''Hello, how are you today?''" 3000]
  from T have 1: "openaiClientRef ?s = Some (OpenAIClient ''sk-test'')"
    by (rule conjunct1)
  from T s(2) have 2: "\<exists>body. Fetch ''sk-test'' body \<in>
      set (effects (handleTranscript env0 (render state0) ''Hello, how are you today?'' 3000 ?s))"
    by simp
  from T have "\<forall>k. k \<noteq> [] \<and> trim k \<noteq> [] \<and> k \<noteq> apiKey ?s \<longrightarrow>
      openaiClientRef (setApiKey env0 k ?s) = Some (OpenAIClient k)"
    by (rule conjunct2 [THEN conjunct2])
  then have "''sk-other'' \<noteq> [] \<and> trim ''sk-other'' \<noteq> [] \<and> ''sk-other'' \<noteq> apiKey ?s \<longrightarrow>
      openaiClientRef (setApiKey env0 ''sk-other'' ?s) = Some (OpenAIClient ''sk-other'')"
    by (rule spec)
  with w(2) a have 3: "openaiClientRef (setApiKey env0 ''sk-other'' ?s) = Some (OpenAIClient ''sk-other'')"
    by simp
  from 1 2 3 show ?thesis by (intro conjI)
qed

section \<open>The duplicated effect\<close>

lemmas effect_defs =
  setAudioBlob_def setApiKey_def rerender_def commitEffects_def audioDepsChanged_def
  apiKeyDepsChanged_def audioBlobEffect_def apiKeyEffect_def postMessage_def sendMessage_def
  resetAudio_def render_def setIsProcessing_def setCurrentStatus_def emit_def Let_def











text \<open>
  The two registrations are not harmless in themselves. In a state with a loaded worker in
  the reference, which no handler or effect of the source produces, the render that sees the
  blob runs both of them with the same closure, and the worker arms two timers.
\<close>

lemma utterance_ready_with_worker:
  assumes "whisperWorkerRef s = Some w" and "whisper_isLoaded w"
    and "isModelLoaded s" and "audioBlob s = None"
  shows "whisperWorkerRef (setAudioBlob e blob s) =
           Some (w\<lparr>timers := timers w @ [clock e (ticks s), clock e (Suc (ticks s))]\<rparr>)"
  using assms by (simp add: effect_defs)

section \<open>A transcription failure\<close>







section \<open>A synthesis failure after a reply\<close>

text \<open>
  C4, as amended. In every run in which synthesis fails or is skipped (no engine object,
  the component's flag for the engine not set, or \<open>synthesize\<close> throws because the engine is
  not loaded or has no audio context), the completion has yielded a reply and the
  conversation gains the user turn and exactly one assistant turn, which carries that reply.
  Nothing in the run sets \<open>isPlaying\<close> to true or shows the status \<open>Playing audio...\<close>; the
  run ends with \<open>isProcessing\<close> cleared, \<open>isPlaying\<close> as it was and the published metrics
  untouched, and no error turn is appended. The status \<open>TTS error, but response received\<close>
  is shown when \<open>synthesize\<close> was called and threw. When synthesis is skipped, because there
  is no engine object or the component's flag is not set, no message is shown and the
  status stays \<open>Synthesizing speech...\<close>.
\<close>

theorem synthesis_failure_or_skip:
  assumes "ttsEngineRef s = None \<or> \<not> c_isTTSLoaded cl \<or>
           (\<exists>tts. ttsEngineRef s = Some tts \<and> \<not> (tts_isLoaded tts \<and> hasAudioContext tts))"
  shows "\<exists>reply lat ts new.
           fst (handleTranscript_complete chatCompletion e cl transcript
                  (fst (snd (handleTranscript_begin e transcript s)))
                  (snd (snd (handleTranscript_begin e transcript s)))) = Inr (reply, lat) \<and>
           messages (handleTranscript e cl transcript stt s) =
             messages s @
               [\<lparr>role = User, content = transcript, timestamp = clock e (Suc (ticks s))\<rparr>,
                \<lparr>role = Assistant, content = reply, timestamp = ts\<rparr>] \<and>
           effects (handleTranscript e cl transcript stt s) = effects s @ new \<and>
           Playing True \<notin> set new \<and> Status ''Playing audio...'' \<notin> set new \<and>
           last new = Status (currentStatus (handleTranscript e cl transcript stt s)) \<and>
           currentStatus (handleTranscript e cl transcript stt s) =
             (if ttsEngineRef s = None then ''Synthesizing speech...''
              else if c_isTTSLoaded cl then ''TTS error, but response received''
              else ''Synthesizing speech...'') \<and>
           isPlaying (handleTranscript e cl transcript stt s) = isPlaying s \<and>
           \<not> isProcessing (handleTranscript e cl transcript stt s) \<and>
           performanceMetrics (handleTranscript e cl transcript stt s) = performanceMetrics s"
proof -
  let ?s' = "handleTranscript e cl transcript stt s"
  obtain reply k1 k2 n evs S where r:
    "?s' =
       setIsProcessing False
         (handleTranscript_tts e cl stt (clock e k2 - clock e k1) (clock e (ticks s)) reply S)"
    "S = s\<lparr>ticks := ticks s + n + 3,
           messages := messages s @
             [\<lparr>role = User, content = transcript, timestamp = clock e (Suc (ticks s))\<rparr>,
              \<lparr>role = Assistant, content = reply, timestamp = clock e (ticks s + n + 2)\<rparr>],
           currentStatus := ''Synthesizing speech...'',
           effects := effects s @ [Status ''Getting AI response...''] @ evs @
                      [Status ''Synthesizing speech...'']\<rparr>"
    "fst (handleTranscript_complete chatCompletion e cl transcript
            (fst (snd (handleTranscript_begin e transcript s)))
            (snd (snd (handleTranscript_begin e transcript s)))) =
       Inr (reply, clock e k2 - clock e k1)"
    "Playing True \<notin> set evs" "\<forall>x. Status x \<notin> set evs"
    using handleTranscript_run [of e cl transcript stt s] by blast
  have S: "ttsEngineRef S = ttsEngineRef s"
    by (simp add: r(2))
  let ?T = "handleTranscript_tts e cl stt (clock e k2 - clock e k1) (clock e (ticks s)) reply S"
  let ?m = "messages s @
               [\<lparr>role = User, content = transcript, timestamp = clock e (Suc (ticks s))\<rparr>,
                \<lparr>role = Assistant, content = reply, timestamp = clock e (ticks s + n + 2)\<rparr>]"
  show ?thesis
  proof (cases "ttsEngineRef s = None \<or> \<not> c_isTTSLoaded cl")
    case True
    then have "?T = S" by (intro tts_skip) (simp add: S)
    then have fin: "?s' = S\<lparr>isProcessing := False\<rparr>"
      by (simp add: r(1) setIsProcessing_def)
    let ?new = "[Status ''Getting AI response...''] @ evs @ [Status ''Synthesizing speech...'']"
    have "messages ?s' = ?m" "effects ?s' = effects s @ ?new"
      "isPlaying ?s' = isPlaying s" "\<not> isProcessing ?s'"
      "currentStatus ?s' = ''Synthesizing speech...''"
      "performanceMetrics ?s' = performanceMetrics s"
      by (simp_all add: fin r(2))
    moreover have "Playing True \<notin> set ?new" "Status ''Playing audio...'' \<notin> set ?new"
      "last ?new = Status ''Synthesizing speech...''"
      using r(4,5) by simp_all
    moreover have "(if ttsEngineRef s = None then ''Synthesizing speech...''
              else if c_isTTSLoaded cl then ''TTS error, but response received''
              else ''Synthesizing speech...'') = ''Synthesizing speech...''"
      using True by auto
    ultimately show ?thesis
      using r(3) by (metis (no_types, lifting))
  next
    case False
    with assms obtain tts where t: "ttsEngineRef S = Some tts" "c_isTTSLoaded cl"
      "\<not> (tts_isLoaded tts \<and> hasAudioContext tts)"
      by (auto simp: S)
    obtain j where j: "?T =
           S\<lparr>ticks := ticks S + j, currentStatus := ''TTS error, but response received'',
             effects := effects S @ [ConsoleError ''TTS Error:'',
                                     Status ''TTS error, but response received'']\<rparr>"
      using tts_fail [OF t] by blast
    have fin: "?s' = S\<lparr>ticks := ticks S + j, currentStatus := ''TTS error, but response received'',
             effects := effects S @ [ConsoleError ''TTS Error:'',
                                     Status ''TTS error, but response received''],
             isProcessing := False\<rparr>"
      by (simp add: r(1) j setIsProcessing_def)
    let ?new = "[Status ''Getting AI response...''] @ evs @
              [Status ''Synthesizing speech...'', ConsoleError ''TTS Error:'',
               Status ''TTS error, but response received'']"
    have "messages ?s' = ?m" "effects ?s' = effects s @ ?new"
      "isPlaying ?s' = isPlaying s" "\<not> isProcessing ?s'"
      "currentStatus ?s' = ''TTS error, but response received''"
      "performanceMetrics ?s' = performanceMetrics s"
      by (simp_all add: fin r(2))
    moreover have "Playing True \<notin> set ?new" "Status ''Playing audio...'' \<notin> set ?new"
      "last ?new = Status ''TTS error, but response received''"
      using r(4,5) by simp_all
    moreover have "(if ttsEngineRef s = None then ''Synthesizing speech...''
              else if c_isTTSLoaded cl then ''TTS error, but response received''
              else ''Synthesizing speech...'') = ''TTS error, but response received''"
      using False by auto
    ultimately show ?thesis
      using r(3) by (metis (no_types, lifting))
  qed
qed

theorem synthesis_failure_or_skip_witness:
  "\<exists>reply lat ts new.
           fst (handleTranscript_complete chatCompletion env0 (render state_tts_down)
                  ''Hello, how are you today?''
                  (fst (snd (handleTranscript_begin env0 ''Hello, how are you today?'' state_tts_down)))
                  (snd (snd (handleTranscript_begin env0 ''Hello, how are you today?'' state_tts_down)))) =
             Inr (reply, lat) \<and>
           messages (handleTranscript env0 (render state_tts_down) ''Hello, how are you today?'' 3000 state_tts_down) =
             messages state_tts_down @
               [\<lparr>role = User, content = ''Hello, how are you today?'',
                  timestamp = clock env0 (Suc (ticks state_tts_down))\<rparr>,
                \<lparr>role = Assistant, content = reply, timestamp = ts\<rparr>] \<and>
           effects (handleTranscript env0 (render state_tts_down) ''Hello, how are you today?'' 3000 state_tts_down) =
             effects state_tts_down @ new \<and>
           Playing True \<notin> set new \<and> Status ''Playing audio...'' \<notin> set new \<and>
           last new = Status (currentStatus
             (handleTranscript env0 (render state_tts_down) ''Hello, how are you today?'' 3000 state_tts_down)) \<and>
           currentStatus (handleTranscript env0 (render state_tts_down) ''Hello, how are you today?'' 3000 state_tts_down) =
             (if ttsEngineRef state_tts_down = None then ''Synthesizing speech...''
              else if c_isTTSLoaded (render state_tts_down) then ''TTS error, but response received''
              else ''Synthesizing speech...'') \<and>
           isPlaying (handleTranscript env0 (render state_tts_down) ''Hello, how are you today?'' 3000 state_tts_down) =
             isPlaying state_tts_down \<and>
           \<not> isProcessing (handleTranscript env0 (render state_tts_down) ''Hello, how are you today?'' 3000 state_tts_down) \<and>
           performanceMetrics (handleTranscript env0 (render state_tts_down) ''Hello, how are you today?'' 3000 state_tts_down) =
             performanceMetrics state_tts_down"
  by (rule synthesis_failure_or_skip) (simp add: state_tts_down_def state0_def render_def)

text \<open>The conversation and the trace of that run.\<close>

lemma sample_synthesis_failure:
  "messages (handleTranscript env0 (render state_tts_down) ''Hello, how are you today?'' 3000 state_tts_down) =
     [\<lparr>role = User, content = ''Hello, how are you today?'', timestamp = 0\<rparr>,
      \<lparr>role = Assistant, content = ''Hello! How can I help?'', timestamp = 500\<rparr>]"
  "effects (handleTranscript env0 (render state_tts_down) ''Hello, how are you today?'' 3000 state_tts_down) =
     [Status ''Getting AI response...'',
      Fetch ''sk-test'' [(User, ''Hello, how are you today?'')],
      Status ''Synthesizing speech...'', ConsoleError ''TTS Error:'',
      Status ''TTS error, but response received'']"
  by (simp_all add: run_defs env0_def state_tts_down_def state0_def render_def clock0_def)

text \<open>
  C4 as stated asks for a degraded-status message in every run whose synthesis fails, an
  engine that is not ready included. In the sample run the component's flag for the engine
  is not set: the reply is recorded and the run ends, but its last status is
  \<open>Synthesizing speech...\<close>, and the trace holds no other message.
\<close>

theorem skipped_synthesis_shows_no_degraded_status:
  "currentStatus (handleTranscript env0 (render state_tts_unready) ''Hello, how are you today?'' 3000 state_tts_unready) =
     ''Synthesizing speech...'' \<and>
   effects (handleTranscript env0 (render state_tts_unready) ''Hello, how are you today?'' 3000 state_tts_unready) =
     [Status ''Getting AI response...'',
      Fetch ''sk-test'' [(User, ''Hello, how are you today?'')],
      Status ''Synthesizing speech...''] \<and>
   messages (handleTranscript env0 (render state_tts_unready) ''Hello, how are you today?'' 3000 state_tts_unready) =
     [\<lparr>role = User, content = ''Hello, how are you today?'', timestamp = 0\<rparr>,
      \<lparr>role = Assistant, content = ''Hello! How can I help?'', timestamp = 500\<rparr>] \<and>
   \<not> isProcessing (handleTranscript env0 (render state_tts_unready) ''Hello, how are you today?'' 3000 state_tts_unready)"
  by (simp add: run_defs env0_def state_tts_unready_def state0_def render_def clock0_def)

section \<open>The two local responders\<close>

lemma joke_in_jokes: "jokes ! floorRandom e (length jokes) \<in> set jokes"
  by (rule nth_mem) (simp add: floorRandom_def jokes_def)

lemma generateFallbackResponse_ticks:
  "ticks s = ticks s' \<Longrightarrow>
   fst (generateFallbackResponse e i s) = fst (generateFallbackResponse e i s')"
  by (simp add: generateFallbackResponse_def Let_def dateNow_def split_beta)

text \<open>
  When the request fails, the reply of \<open>chatCompletion\<close> is the answer of
  \<open>generateFallbackResponse\<close> to the content of the last message of the history. A body
  without choices costs one more reading of the clock than a failure before line 172.
\<close>

lemma chatCompletion_failed:
  assumes "fetch e (client_apiKey c) (map (\<lambda>msg. (role msg, content msg)) (hist @ [um])) = Failed"
  shows "fst (chatCompletion e c (hist @ [um]) s) =
           Inr (fst (generateFallbackResponse e (content um) (s\<lparr>ticks := ticks s + 2\<rparr>)),
                clock e (Suc (ticks s)) - clock e (ticks s))"
proof -
  let ?f = "Fetch (client_apiKey c) (map (\<lambda>msg. (role msg, content msg)) (hist @ [um]))"
  define s4 where "s4 = s\<lparr>ticks := ticks s + 2,
     effects := effects s @ [?f, ConsoleError ''OpenAI API Error:'']\<rparr>"
  have s4': "s\<lparr>effects := effects s @ [?f, ConsoleError ''OpenAI API Error:''],
               ticks := Suc (Suc (ticks s))\<rparr> = s4"
    by (simp add: s4_def)
  have "fst (chatCompletion e c (hist @ [um]) s) =
          Inr (fst (generateFallbackResponse e (content um) s4),
               clock e (Suc (ticks s)) - clock e (ticks s))"
    using assms
    by (simp add: chatCompletion_def Let_def dateNow_def emit_def split_beta s4'
        del: map_append)
  moreover have "fst (generateFallbackResponse e (content um) s4) =
      fst (generateFallbackResponse e (content um) (s\<lparr>ticks := ticks s + 2\<rparr>))"
    by (rule generateFallbackResponse_ticks) (simp add: s4_def)
  ultimately show ?thesis by simp
qed

lemma chatCompletion_no_choices:
  assumes "fetch e (client_apiKey c) (map (\<lambda>msg. (role msg, content msg)) (hist @ [um])) = NoChoices"
  shows "fst (chatCompletion e c (hist @ [um]) s) =
           Inr (fst (generateFallbackResponse e (content um) (s\<lparr>ticks := ticks s + 3\<rparr>)),
                clock e (Suc (Suc (ticks s))) - clock e (ticks s))"
proof -
  let ?f = "Fetch (client_apiKey c) (map (\<lambda>msg. (role msg, content msg)) (hist @ [um]))"
  define s4 where "s4 = s\<lparr>ticks := ticks s + 3,
     effects := effects s @ [?f, ConsoleError ''OpenAI API Error:'']\<rparr>"
  have s4': "s\<lparr>effects := effects s @ [?f, ConsoleError ''OpenAI API Error:''],
               ticks := Suc (Suc (Suc (ticks s)))\<rparr> = s4"
    by (simp add: s4_def)
  have "fst (chatCompletion e c (hist @ [um]) s) =
          Inr (fst (generateFallbackResponse e (content um) s4),
               clock e (Suc (Suc (ticks s))) - clock e (ticks s))"
    using assms
    by (simp add: chatCompletion_def Let_def dateNow_def emit_def split_beta s4'
        del: map_append)
  moreover have "fst (generateFallbackResponse e (content um) s4) =
      fst (generateFallbackResponse e (content um) (s\<lparr>ticks := ticks s + 3\<rparr>))"
    by (rule generateFallbackResponse_ticks) (simp add: s4_def)
  ultimately show ?thesis by simp
qed

lemma lower_time: "toLowerCase ''What time is it?'' = ''what time is it?''"
  by code_simp

lemma offline_time_reply:
  "fst (getOfflineResponse e ''What time is it?'' s) =
     ''The current time is '' @ toLocaleTimeString e (clock e (ticks s))"
  by (simp add: getOfflineResponse_def lower_time dateNow_def)

lemma lower_weather: "toLowerCase ''What's the weather like?'' = ''what's the weather like?''"
  by code_simp

lemma lower_joke: "toLowerCase ''Can you tell me a joke?'' = ''can you tell me a joke?''"
  by code_simp

lemma lower_date: "toLowerCase ''What's the date today?'' = ''what's the date today?''"
  by code_simp

lemma lower_ai:
  "toLowerCase ''Tell me about artificial intelligence'' = ''tell me about artificial intelligence''"
  by code_simp

lemma offline_time_run:
  assumes off: "\<not> c_isOnline cl"
  shows "\<exists>ts. messages (handleTranscript e cl ''What time is it?'' stt s) =
         messages s @
           [\<lparr>role = User, content = ''What time is it?'', timestamp = clock e (Suc (ticks s))\<rparr>,
            \<lparr>role = Assistant,
              content = ''The current time is '' @ toLocaleTimeString e (clock e (ticks s + 3)),
              timestamp = ts\<rparr>]"
proof -
  obtain reply k1 k2 n evs S where r:
    "handleTranscript e cl ''What time is it?'' stt s =
       setIsProcessing False
         (handleTranscript_tts e cl stt (clock e k2 - clock e k1) (clock e (ticks s)) reply S)"
    "S = s\<lparr>ticks := ticks s + n + 3,
           messages := messages s @
             [\<lparr>role = User, content = ''What time is it?'', timestamp = clock e (Suc (ticks s))\<rparr>,
              \<lparr>role = Assistant, content = reply, timestamp = clock e (ticks s + n + 2)\<rparr>],
           currentStatus := ''Synthesizing speech...'',
           effects := effects s @ [Status ''Getting AI response...''] @ evs @
                      [Status ''Synthesizing speech...'']\<rparr>"
    "c_isOnline cl \<or> (evs = [] \<and>
        reply = fst (getOfflineResponse e ''What time is it?'' (s\<lparr>ticks := ticks s + 3\<rparr>)))"
    using handleTranscript_run [of e cl "''What time is it?''" stt s] by blast
  from r(3) off have "reply = ''The current time is '' @ toLocaleTimeString e (clock e (ticks s + 3))"
    by (simp add: offline_time_reply)
  moreover have "messages (handleTranscript e cl ''What time is it?'' stt s) = messages S"
    by (simp add: r(1) setIsProcessing_def tts_frame)
  ultimately have "messages (handleTranscript e cl ''What time is it?'' stt s) =
       messages s @
         [\<lparr>role = User, content = ''What time is it?'', timestamp = clock e (Suc (ticks s))\<rparr>,
          \<lparr>role = Assistant,
            content = ''The current time is '' @ toLocaleTimeString e (clock e (ticks s + 3)),
            timestamp = clock e (ticks s + n + 2)\<rparr>]"
    by (simp add: r(2))
  then show ?thesis by (rule exI)
qed

text \<open>
  C6, as amended. The source has two local responders, both matching keywords as
  substrings of the lower-cased input, in a fixed order. \<open>generateFallbackResponse\<close>, used
  when the remote request fails, answers \<open>hello\<close> or \<open>hi\<close> with its greeting, else \<open>weather\<close>
  with its weather line, else \<open>joke\<close> with one of its three jokes, else \<open>time\<close> with the
  time line (with a full stop), else with its echo of the input; of the history it is given
  the content of the last message only. \<open>getOfflineResponse\<close>, used in offline mode, answers
  \<open>hello\<close> or \<open>hi\<close> with its own greeting, else \<open>time\<close> with the time line (without full
  stop), else \<open>date\<close> with the date line, else with its own echo: it has no weather and no
  joke branch, and it has a date branch. The time and date lines depend on the clock and
  the locale, the joke on a random draw. In offline mode the input "What time is it?" yields
  an assistant turn with the offline time line.
\<close>

theorem responders_by_keyword:
  \<open>fst (generateFallbackResponse e input s) =
     (if includes_str (toLowerCase input) ''hello'' \<or> includes_str (toLowerCase input) ''hi''
      then ''Hello! I'm your AI assistant. How can I help you today?''
      else if includes_str (toLowerCase input) ''weather''
      then ''I don't have access to real-time weather data, but I hope it's pleasant where you are!''
      else if includes_str (toLowerCase input) ''joke''
      then jokes ! floorRandom e (length jokes)
      else if includes_str (toLowerCase input) ''time''
      then ''The current time is '' @ toLocaleTimeString e (clock e (ticks s)) @ ''.''
      else ''I understand you said: "'' @ input @
             ''". That's interesting! What would you like to know more about?'') \<and>
   jokes ! floorRandom e (length jokes) \<in> set jokes \<and>
   fst (getOfflineResponse e input s) =
     (if includes_str (toLowerCase input) ''hello'' \<or> includes_str (toLowerCase input) ''hi''
      then ''Hello! I'm running in offline mode with local speech processing. How can I help you?''
      else if includes_str (toLowerCase input) ''time''
      then ''The current time is '' @ toLocaleTimeString e (clock e (ticks s))
      else if includes_str (toLowerCase input) ''date''
      then ''Today's date is '' @ toLocaleDateString e (clock e (ticks s))
      else ''You said: "'' @ input @
             ''". I'm running offline with local STT and TTS. What would you like to know?'') \<and>
   (fetch e (client_apiKey c) (map (\<lambda>msg. (role msg, content msg)) (hist @ [um])) = Failed \<longrightarrow>
      fst (chatCompletion e c (hist @ [um]) s) =
        Inr (fst (generateFallbackResponse e (content um) (s\<lparr>ticks := ticks s + 2\<rparr>)),
             clock e (Suc (ticks s)) - clock e (ticks s))) \<and>
   (fetch e (client_apiKey c) (map (\<lambda>msg. (role msg, content msg)) (hist @ [um])) = NoChoices \<longrightarrow>
      fst (chatCompletion e c (hist @ [um]) s) =
        Inr (fst (generateFallbackResponse e (content um) (s\<lparr>ticks := ticks s + 3\<rparr>)),
             clock e (Suc (Suc (ticks s))) - clock e (ticks s))) \<and>
   (\<not> c_isOnline cl \<longrightarrow>
      (\<exists>ts. messages (handleTranscript e cl ''What time is it?'' stt s) =
         messages s @
           [\<lparr>role = User, content = ''What time is it?'', timestamp = clock e (Suc (ticks s))\<rparr>,
            \<lparr>role = Assistant,
              content = ''The current time is '' @ toLocaleTimeString e (clock e (ticks s + 3)),
              timestamp = ts\<rparr>]))\<close>
  using joke_in_jokes [of e] chatCompletion_failed [of e c hist um s]
    chatCompletion_no_choices [of e c hist um s] offline_time_run [of cl e stt s]
  by (simp add: generateFallbackResponse_def getOfflineResponse_def Let_def dateNow_def
      split_beta del: map_append)

theorem responders_by_keyword_witness:
  \<open>fst (generateFallbackResponse env_down ''What's the weather like?'' state0) =
     ''I don't have access to real-time weather data, but I hope it's pleasant where you are!'' \<and>
   fst (generateFallbackResponse env_down ''Can you tell me a joke?'' state0) =
     ''What do you call a fake noodle? An impasta!'' \<and>
   fst (generateFallbackResponse env_down ''What time is it?'' state0) =
     ''The current time is 10:15:30 AM.'' \<and>
   fst (generateFallbackResponse env_down ''Tell me about artificial intelligence'' state0) =
     ''I understand you said: "Tell me about artificial intelligence". That's interesting! What would you like to know more about?'' \<and>
   fst (getOfflineResponse env0 ''What time is it?'' state_offline) =
     ''The current time is 10:15:30 AM'' \<and>
   fst (getOfflineResponse env0 ''What's the date today?'' state_offline) =
     ''Today's date is 11/3/2026'' \<and>
   fst (getOfflineResponse env0 ''What's the weather like?'' state_offline) =
     ''You said: "What's the weather like?". I'm running offline with local STT and TTS. What would you like to know?'' \<and>
   fst (chatCompletion env_down (OpenAIClient ''sk-test'')
          ([\<lparr>role = User, content = ''Can you tell me a joke?'', timestamp = 0\<rparr>] @
           [\<lparr>role = User, content = ''What's the weather like?'', timestamp = 0\<rparr>]) state0) =
     Inr (''I don't have access to real-time weather data, but I hope it's pleasant where you are!'',
          clock0 1 - clock0 0) \<and>
   fst (chatCompletion env_nochoices (OpenAIClient ''sk-test'')
          ([\<lparr>role = User, content = ''Can you tell me a joke?'', timestamp = 0\<rparr>] @
           [\<lparr>role = User, content = ''What's the weather like?'', timestamp = 0\<rparr>]) state0) =
     Inr (''I don't have access to real-time weather data, but I hope it's pleasant where you are!'',
          clock0 2 - clock0 0) \<and>
   (\<exists>ts. messages (handleTranscript env0 (render state_offline) ''What time is it?'' 900
                     state_offline) =
      [\<lparr>role = User, content = ''What time is it?'', timestamp = 0\<rparr>,
       \<lparr>role = Assistant, content = ''The current time is 10:15:30 AM'', timestamp = ts\<rparr>])\<close>
proof -
  let ?um = "\<lparr>role = User, content = ''What's the weather like?'', timestamp = 0\<rparr>"
  let ?hist = "[\<lparr>role = User, content = ''Can you tell me a joke?'', timestamp = 0\<rparr>]"
  have f1: "fst (generateFallbackResponse env_down ''What's the weather like?'' state0) =
     ''I don't have access to real-time weather data, but I hope it's pleasant where you are!''"
    using responders_by_keyword
      [where e = env_down and input = "''What's the weather like?''" and s = state0,
        THEN conjunct1]
    by (simp add: lower_weather)
  have f2: "fst (generateFallbackResponse env_down ''Can you tell me a joke?'' state0) =
     ''What do you call a fake noodle? An impasta!''"
    using responders_by_keyword
      [where e = env_down and input = "''Can you tell me a joke?''" and s = state0,
        THEN conjunct1]
    by (simp add: lower_joke floorRandom_def jokes_def env_down_def env0_def)
  have f3: "fst (generateFallbackResponse env_down ''What time is it?'' state0) =
     ''The current time is 10:15:30 AM.''"
    using responders_by_keyword
      [where e = env_down and input = "''What time is it?''" and s = state0, THEN conjunct1]
    by (simp add: lower_time env_down_def env0_def state0_def clock0_def)
  have f4: \<open>fst (generateFallbackResponse env_down ''Tell me about artificial intelligence'' state0) =
     ''I understand you said: "Tell me about artificial intelligence". That's interesting! What would you like to know more about?''\<close>
    using responders_by_keyword
      [where e = env_down and input = "''Tell me about artificial intelligence''" and s = state0,
        THEN conjunct1]
    by (simp add: lower_ai)
  have o1: "fst (getOfflineResponse env0 ''What time is it?'' state_offline) =
     ''The current time is 10:15:30 AM''"
    using responders_by_keyword
      [where e = env0 and input = "''What time is it?''" and s = state_offline,
        THEN conjunct2, THEN conjunct2, THEN conjunct1]
    by (simp add: lower_time env0_def state_offline_def state_tts_down_def state0_def clock0_def)
  have o2: "fst (getOfflineResponse env0 ''What's the date today?'' state_offline) =
     ''Today's date is 11/3/2026''"
    using responders_by_keyword
      [where e = env0 and input = "''What's the date today?''" and s = state_offline,
        THEN conjunct2, THEN conjunct2, THEN conjunct1]
    by (simp add: lower_date env0_def)
  have o3: \<open>fst (getOfflineResponse env0 ''What's the weather like?'' state_offline) =
     ''You said: "What's the weather like?". I'm running offline with local STT and TTS. What would you like to know?''\<close>
    using responders_by_keyword
      [where e = env0 and input = "''What's the weather like?''" and s = state_offline,
        THEN conjunct2, THEN conjunct2, THEN conjunct1]
    by (simp add: lower_weather)
  have w2: "fst (generateFallbackResponse e' ''What's the weather like?'' s') =
     ''I don't have access to real-time weather data, but I hope it's pleasant where you are!''"
    for e' s'
    by (simp add: generateFallbackResponse_def lower_weather)
  have p1: "fetch env_down (client_apiKey (OpenAIClient ''sk-test''))
              (map (\<lambda>msg. (role msg, content msg)) (?hist @ [?um])) = Failed"
    by (simp add: env_down_def env0_def)
  have p2: "fetch env_nochoices (client_apiKey (OpenAIClient ''sk-test''))
              (map (\<lambda>msg. (role msg, content msg)) (?hist @ [?um])) = NoChoices"
    by (simp add: env_nochoices_def env0_def)
  have k: "clock env_down (Suc (ticks state0)) = clock0 1" "clock env_down (ticks state0) = clock0 0"
    "clock env_nochoices (Suc (Suc (ticks state0))) = clock0 2"
    "clock env_nochoices (ticks state0) = clock0 0"
    by (simp_all add: env_down_def env_nochoices_def env0_def state0_def numeral_2_eq_2)
  have c1: "fst (chatCompletion env_down (OpenAIClient ''sk-test'') (?hist @ [?um]) state0) =
     Inr (''I don't have access to real-time weather data, but I hope it's pleasant where you are!'',
          clock0 1 - clock0 0)"
    using responders_by_keyword
      [where e = env_down and c = "OpenAIClient ''sk-test''" and hist = ?hist and um = ?um
         and s = state0,
        THEN conjunct2, THEN conjunct2, THEN conjunct2, THEN conjunct1, THEN mp, OF p1]
    by (simp add: w2 k)
  have c2: "fst (chatCompletion env_nochoices (OpenAIClient ''sk-test'') (?hist @ [?um]) state0) =
     Inr (''I don't have access to real-time weather data, but I hope it's pleasant where you are!'',
          clock0 2 - clock0 0)"
    using responders_by_keyword
      [where e = env_nochoices and c = "OpenAIClient ''sk-test''" and hist = ?hist and um = ?um
         and s = state0,
        THEN conjunct2, THEN conjunct2, THEN conjunct2, THEN conjunct2, THEN conjunct1,
        THEN mp, OF p2]
    by (simp add: w2 k)
  have p3: "\<not> c_isOnline (render state_offline)"
    by (simp add: render_def state_offline_def state_tts_down_def state0_def)
  have k3: "clock env0 (Suc (ticks state_offline)) = 0"
    "toLocaleTimeString env0 (clock env0 (ticks state_offline + 3)) = ''10:15:30 AM''"
    "messages state_offline = []"
    by (simp_all add: env0_def state_offline_def state_tts_down_def state0_def clock0_def)
  have r: "\<exists>ts. messages (handleTranscript env0 (render state_offline) ''What time is it?'' 900
                     state_offline) =
      [\<lparr>role = User, content = ''What time is it?'', timestamp = 0\<rparr>,
       \<lparr>role = Assistant, content = ''The current time is 10:15:30 AM'', timestamp = ts\<rparr>]"
    using responders_by_keyword
      [where e = env0 and cl = "render state_offline" and stt = 900 and s = state_offline,
        THEN conjunct2, THEN conjunct2, THEN conjunct2, THEN conjunct2, THEN conjunct2,
        THEN mp, OF p3]
    by (simp add: k3)
  from f1 f2 f3 f4 o1 o2 o3 c1 c2 r show ?thesis by (intro conjI)
qed

text \<open>The conversation of the offline run.\<close>

lemma sample_offline_time:
  "messages (handleTranscript env0 (render state_offline) ''What time is it?'' 900 state_offline) =
     [\<lparr>role = User, content = ''What time is it?'', timestamp = 0\<rparr>,
      \<lparr>role = Assistant, content = ''The current time is 10:15:30 AM'', timestamp = 500\<rparr>]"
  by (simp add: run_defs getOfflineResponse_def lower_time env0_def state_offline_def
      state_tts_down_def state0_def render_def clock0_def)

text \<open>
  C6 as stated gives the local responder the branches greeting, weather, joke, time and
  echo. The offline responder answers the weather question and the request for a joke with
  its echo; the fallback responder of the client answers the same inputs with the weather
  line and with a joke.
\<close>

theorem offline_responder_has_no_weather_branch:
  \<open>fst (getOfflineResponse env0 ''What's the weather like?'' state_offline) =
     ''You said: "What's the weather like?". I'm running offline with local STT and TTS. What would you like to know?'' \<and>
   fst (generateFallbackResponse env0 ''What's the weather like?'' state_offline) =
     ''I don't have access to real-time weather data, but I hope it's pleasant where you are!'' \<and>
   fst (getOfflineResponse env0 ''Can you tell me a joke?'' state_offline) =
     ''You said: "Can you tell me a joke?". I'm running offline with local STT and TTS. What would you like to know?'' \<and>
   fst (generateFallbackResponse env0 ''Can you tell me a joke?'' state_offline) \<in> set jokes\<close>
  using joke_in_jokes [of env0]
  by (simp add: getOfflineResponse_def generateFallbackResponse_def lower_weather lower_joke)

end
